theory Spec2Isabelle
  imports Main
begin

section \<open>Strings of the source\<close>

text \<open>
  Python strings are modelled as \<^typ>\<open>string\<close>. The few characters of the source
  outside ASCII are written as their UTF-8 bytes; equality of strings and the
  character class of \<open>slug\<close> are the same on code points and on UTF-8 bytes.
\<close>

definition em_dash :: string where
  "em_dash = [CHR 0xE2, CHR 0x80, CHR 0x94]"

definition en_dash :: string where
  "en_dash = [CHR 0xE2, CHR 0x80, CHR 0x93]"

definition ldquo :: string where
  "ldquo = [CHR 0xE2, CHR 0x80, CHR 0x9C]"

definition rdquo :: string where
  "rdquo = [CHR 0xE2, CHR 0x80, CHR 0x9D]"

definition rarrow :: string where
  "rarrow = [CHR 0xE2, CHR 0x86, CHR 0x92]"

definition sect_sign :: string where
  "sect_sign = [CHR 0xC2, CHR 0xA7]"

text \<open>
  The two placeholder strings of the source: the words \<open>select\<close> and \<open>choose\<close>, each
  between two em-dashes and single spaces.
\<close>

definition placeholder_select :: string where
  "placeholder_select = em_dash @ '' select '' @ em_dash"

definition placeholder_choose :: string where
  "placeholder_choose = em_dash @ '' choose '' @ em_dash"

text \<open>Truth value of a Python string or \<open>None\<close> in a condition: \<open>None\<close> and \<open>""\<close> are false.\<close>

fun str_truthy :: "string option \<Rightarrow> bool" where
  "str_truthy None = False"
| "str_truthy (Some s) = (s \<noteq> [])"

section \<open>The lookup tables\<close>

record plan_row =
  Gap :: string
  Description :: string
  Suggested_Interface_Type :: string
  Suggested_Fix :: string
  Reference :: string

record integrity_row =
  Area :: string
  Plain_Meaning :: string
  Likely_Gap :: string
  Improvement :: string
  Standards :: string

definition PLAN_ROWS :: "plan_row list" where
  "PLAN_ROWS = [
     \<lparr> Gap = ''Data Silos'',
       Description = ''EHR and PACS store data separately; clinicians must open two systems.'',
       Suggested_Interface_Type = ''Interface Engine (Middleware)'',
       Suggested_Fix = ''Add/Optimize Interface Engine'',
       Reference = ''CMS Criterion 3 '' @ en_dash @ '' Data Availability'' \<rparr>,
     \<lparr> Gap = ''Inconsistent Patient IDs'',
       Description = ''IDs differ in format/structure (e.g., '' @ ldquo @ ''12345'' @ rdquo
                      @ '' vs '' @ ldquo @ ''0012345'' @ rdquo @ '').'',
       Suggested_Interface_Type = ''Interface Engine (Middleware)'',
       Suggested_Fix = ''Implement MPI'',
       Reference = ''CMS Criterion 5 '' @ en_dash @ '' Identity & Trust'' \<rparr>,
     \<lparr> Gap = ''Missing Clinical Context'',
       Description = ''Imaging data lacks clinical notes or order linkage.'',
       Suggested_Interface_Type = ''Interface Engine (Middleware)'',
       Suggested_Fix = ''Map HL7'' @ rarrow @ ''DICOM Metadata'',
       Reference = ''ONC '' @ sect_sign @ ''170.315(b) '' @ en_dash @ '' Transitions of Care'' \<rparr>,
     \<lparr> Gap = ''No FHIR Connection'',
       Description = ''Legacy EHR cannot use FHIR APIs for modern data exchange.'',
       Suggested_Interface_Type = ''FHIR API'',
       Suggested_Fix = ''Enable/Upgrade EHR FHIR'',
       Reference = ''ONC '' @ sect_sign @ ''170.315(g)(10) '' @ en_dash @ '' API Exchange'' \<rparr>,
     \<lparr> Gap = ''Data Integrity & Security'',
       Description = ''Lack of audit trails or accuracy checks between systems.'',
       Suggested_Interface_Type = ''Interface Engine (Middleware)'',
       Suggested_Fix = ''Enable audit logs & integrity checks; shared audit trail'',
       Reference = ''ONC '' @ sect_sign @ ''170.315(d)(9); CMS Criterion 5 '' @ en_dash
                    @ '' Identity & Trust'' \<rparr>
   ]"

definition INTEGRITY_ROWS :: "integrity_row list" where
  "INTEGRITY_ROWS = [
     \<lparr> Area = ''Data Accuracy (Integrity)'',
       Plain_Meaning = ''Ensure information stays correct and unchanged during transfer/storage.'',
       Likely_Gap = ''EHR/PACS show mismatched IDs/dates; altered payloads not detected.'',
       Improvement = ''Enable message checksums/hashes; verify accession/MRN on receipt.'',
       Standards = ''ONC '' @ sect_sign @ ''170.315(d)(9); HIPAA 164.312(c)(1)'' \<rparr>,
     \<lparr> Area = ''Access Tracking (Audit Logs)'',
       Plain_Meaning = ''Record who viewed/edited data to support privacy & accountability.'',
       Likely_Gap = ''Separate, incomplete audit trails; clocks not synchronized.'',
       Improvement = ''Unified audit (engine/SIEM), unique IDs, NTP time sync, regular review.'',
       Standards = ''ONC '' @ sect_sign
                    @ ''170.315(d); HIPAA 164.312(b); CMS Identity/Security/Trust'' \<rparr>,
     \<lparr> Area = ''Error Detection & Alerts'',
       Plain_Meaning = ''Detect and surface failed transfers quickly.'',
       Likely_Gap = ''Orders/results fail silently; no retry queues or alerts.'',
       Improvement = ''ACK/NACK monitoring, retries, routed alerts to on-call IT/imaging.'',
       Standards = ''AHRQ Evaluation (data quality); supports CMS Data Availability'' \<rparr>,
     \<lparr> Area = ''Patient Identity Management (MPI)'',
       Plain_Meaning = ''One accurate identity across systems.'',
       Likely_Gap = ''Duplicate/mismatched MRNs; weak demographic matching.'',
       Improvement = ''Implement/strengthen MPI; matching thresholds; periodic deduping.'',
       Standards = ''CMS Identity & Trust'' \<rparr>
   ]"

text \<open>The dictionary \<open>RECOMMENDED_INTEGRITY\<close>, with its entries in source order.\<close>

definition RECOMMENDED_INTEGRITY_items :: "(string \<times> string) list" where
  "RECOMMENDED_INTEGRITY_items = [
     (''Data Silos'', ''Access Tracking (Audit Logs)''),
     (''Inconsistent Patient IDs'', ''Patient Identity Management (MPI)''),
     (''Missing Clinical Context'', ''Data Accuracy (Integrity)''),
     (''No FHIR Connection'', ''Error Detection & Alerts''),
     (''Data Integrity & Security'', ''Data Accuracy (Integrity)'')
   ]"

text \<open>\<open>RECOMMENDED_INTEGRITY.get(k)\<close>: the value stored under \<open>k\<close>, \<open>None\<close> for a missing key.\<close>

definition RECOMMENDED_INTEGRITY :: "string \<rightharpoonup> string" where
  "RECOMMENDED_INTEGRITY = map_of RECOMMENDED_INTEGRITY_items"

section \<open>Utilities\<close>

text \<open>
  \<open>slug(s) = re.sub(r'[^A-Za-z0-9_]+', '_', s)\<close>: every maximal run of characters outside
  the class becomes one underscore. The flag of \<open>slug_from\<close> tells whether the previous
  character was already part of such a run.
\<close>

definition slug_keeps :: "char \<Rightarrow> bool" where
  "slug_keeps c \<longleftrightarrow>
     c \<in> set ''ABCDEFGHIJKLMNOPQRSTUVWXYZabcdefghijklmnopqrstuvwxyz0123456789_''"

fun slug_from :: "bool \<Rightarrow> string \<Rightarrow> string" where
  "slug_from in_run [] = []"
| "slug_from in_run (c # cs) =
     (if slug_keeps c then c # slug_from False cs
      else if in_run then slug_from True cs
      else CHR ''_'' # slug_from True cs)"

definition slug :: "string \<Rightarrow> string" where
  "slug s = slug_from False s"

text \<open>Decimal rendering of the row index inside an f-string.\<close>

fun digit_char :: "nat \<Rightarrow> char" where
  "digit_char n = (''0123456789'' ! (n mod 10))"

fun str_nat :: "nat \<Rightarrow> string" where
  "str_nat n = (if n < 10 then [digit_char n] else str_nat (n div 10) @ [digit_char n])"

declare str_nat.simps [simp del]

section \<open>Session state and widgets\<close>

text \<open>
  \<open>st.session_state\<close> is used by the source as a dictionary from widget keys to the
  boolean values of the checkboxes, read with \<open>.get\<close> and written by item assignment.
  It is modelled as a map; only checkbox keys are ever stored.
\<close>

type_synonym session_state = "string \<rightharpoonup> bool"

text \<open>
  \<open>st.session_state.get(k)\<close> and \<open>st.session_state.get(k, False)\<close> used as a condition:
  a missing key gives \<open>None\<close> or \<open>False\<close>, both false.
\<close>

definition state_get :: "session_state \<Rightarrow> string \<Rightarrow> bool" where
  "state_get ss k = (case ss k of None \<Rightarrow> False | Some b \<Rightarrow> b)"

text \<open>
  \<open>st.checkbox("", key=key)\<close> is modelled by the value it returns: the value the widget
  holds in the session state under its key, \<open>False\<close> when nothing is stored there.
\<close>

definition checkbox :: "session_state \<Rightarrow> string \<Rightarrow> bool" where
  "checkbox ss key = state_get ss key"

text \<open>The widget keys \<open>f"plan_row_{i}_{slug(row['Gap'])}"\<close> and
  \<open>f"p2_integrity_{i}_{slug(row['Area'])}"\<close>.\<close>

definition plan_key :: "nat \<Rightarrow> plan_row \<Rightarrow> string" where
  "plan_key i row = ''plan_row_'' @ str_nat i @ ''_'' @ slug (Gap row)"

definition integrity_key :: "nat \<Rightarrow> integrity_row \<Rightarrow> string" where
  "integrity_key i row = ''p2_integrity_'' @ str_nat i @ ''_'' @ slug (Area row)"

text \<open>The keys of the two checkbox tables, in row order: the keys of the checkboxes that
  the loops of sections 1.7 and 2.3 create.\<close>

definition plan_keys :: "string list" where
  "plan_keys = map (\<lambda>(i, row). plan_key i row) (enumerate 0 PLAN_ROWS)"

definition integrity_keys :: "string list" where
  "integrity_keys = map (\<lambda>(i, row). integrity_key i row) (enumerate 0 INTEGRITY_ROWS)"

text \<open>
  Streamlit does not allow \<open>st.session_state[k] = v\<close> once a widget with the key \<open>k\<close> has
  been created in the current run: the assignment raises \<open>StreamlitAPIException\<close> and
  stores nothing. The script has no handler, so the exception ends the run.
\<close>

datatype error = StreamlitAPIException

text \<open>
  \<open>reset_other_checkboxes(checked_keys, keep_key)\<close>: the loop over \<open>checked_keys\<close>,
  threading the session state it assigns to. \<open>widgets\<close> lists the keys of the widgets the
  run has created before the call; the result is the exception raised, if any, and the
  session state the call leaves.
\<close>

fun reset_other_checkboxes ::
  "string list \<Rightarrow> string list \<Rightarrow> string \<Rightarrow> session_state \<Rightarrow> error option \<times> session_state" where
  "reset_other_checkboxes widgets [] keep_key ss = (None, ss)"
| "reset_other_checkboxes widgets (k # ks) keep_key ss =
     (if k \<noteq> keep_key \<and> state_get ss k
      then (if k \<in> set widgets
            then (Some StreamlitAPIException, ss)
            else reset_other_checkboxes widgets ks keep_key (ss(k \<mapsto> False)))
      else reset_other_checkboxes widgets ks keep_key ss)"

text \<open>
  The block after each checkbox table: with more than one checked key a warning is
  shown (the first component) and \<open>reset_other_checkboxes\<close> is called to reset all
  checked keys but \<open>checked_keys[0]\<close>; the second component is the exception it raises.
\<close>

definition enforce_single_select ::
  "string list \<Rightarrow> string list \<Rightarrow> session_state \<Rightarrow> (bool \<times> error option) \<times> session_state" where
  "enforce_single_select widgets checked_keys ss =
     (if length checked_keys > 1
      then (let (raised, ss') = reset_other_checkboxes widgets checked_keys (hd checked_keys) ss
            in ((True, raised), ss'))
      else ((False, None), ss))"

section \<open>1.7 Interface planning\<close>

text \<open>The first loop over \<open>enumerate(PLAN_ROWS)\<close>, collecting \<open>checked_keys\<close> and
  \<open>chosen_idx\<close>.\<close>

fun plan_checked_loop ::
  "session_state \<Rightarrow> (nat \<times> plan_row) list \<Rightarrow> string list \<times> nat option \<Rightarrow> string list \<times> nat option" where
  "plan_checked_loop ss [] acc = acc"
| "plan_checked_loop ss ((i, row) # rest) (checked_keys, chosen_idx) =
     (let key = plan_key i row in
      if checkbox ss key
      then plan_checked_loop ss rest (checked_keys @ [key], Some i)
      else plan_checked_loop ss rest (checked_keys, chosen_idx))"

text \<open>The second loop: \<open>plan_selected\<close> is the first row whose key is set, found after
  the reset.\<close>

fun plan_selected_loop :: "session_state \<Rightarrow> (nat \<times> plan_row) list \<Rightarrow> plan_row option" where
  "plan_selected_loop ss [] = None"
| "plan_selected_loop ss ((i, row) # rest) =
     (if state_get ss (plan_key i row) then Some row else plan_selected_loop ss rest)"

text \<open>
  Section 1.7 as a whole. The checkboxes of the table exist when the reset is called.
  Either the reset raises, and the section ends with the exception and the session state
  at that point (\<open>Inl\<close>), or the section gives the warning flag, \<open>plan_selected\<close> and the
  session state it leaves (\<open>Inr\<close>).
\<close>

definition plan_section ::
  "session_state \<Rightarrow> (error \<times> session_state) + ((bool \<times> plan_row option) \<times> session_state)" where
  "plan_section ss =
     (let (checked_keys, chosen_idx) = plan_checked_loop ss (enumerate 0 PLAN_ROWS) ([], None);
          ((warned, raised), ss') = enforce_single_select plan_keys checked_keys ss
      in case raised of
           Some e \<Rightarrow> Inl (e, ss')
         | None \<Rightarrow> Inr ((warned, plan_selected_loop ss' (enumerate 0 PLAN_ROWS)), ss'))"

section \<open>2.3 Integrity/Security focus\<close>

text \<open>\<open>recommended_area = RECOMMENDED_INTEGRITY.get(plan_selected["Gap"]) if plan_selected
  else None\<close>.\<close>

definition recommended_area_of :: "plan_row option \<Rightarrow> string option" where
  "recommended_area_of plan_selected =
     (case plan_selected of None \<Rightarrow> None | Some row \<Rightarrow> RECOMMENDED_INTEGRITY (Gap row))"

text \<open>The body of the button \<open>Use recommended\<close>: every integrity key is assigned whether
  its row is the recommended one.\<close>

fun use_recommended_loop ::
  "string option \<Rightarrow> (nat \<times> integrity_row) list \<Rightarrow> session_state \<Rightarrow> session_state" where
  "use_recommended_loop recommended_area [] ss = ss"
| "use_recommended_loop recommended_area ((i, row) # rest) ss =
     use_recommended_loop recommended_area rest
       (ss(integrity_key i row \<mapsto> (Some (Area row) = recommended_area)))"

text \<open>The body of the button \<open>Clear selection\<close>.\<close>

fun clear_selection_loop :: "(nat \<times> integrity_row) list \<Rightarrow> session_state \<Rightarrow> session_state" where
  "clear_selection_loop [] ss = ss"
| "clear_selection_loop ((i, row) # rest) ss =
     clear_selection_loop rest (ss(integrity_key i row \<mapsto> False))"

text \<open>
  The loop over \<open>enumerate(INTEGRITY_ROWS)\<close>: it collects \<open>integrity_checked_keys\<close> and,
  in the same pass, assigns \<open>selected_area\<close> at every row whose key is set.
\<close>

fun integrity_loop ::
  "session_state \<Rightarrow> (nat \<times> integrity_row) list \<Rightarrow> string list \<times> string option
     \<Rightarrow> string list \<times> string option" where
  "integrity_loop ss [] acc = acc"
| "integrity_loop ss ((i, row) # rest) (integrity_checked_keys, selected_area) =
     (let key = integrity_key i row in
      integrity_loop ss rest
        (if checkbox ss key then integrity_checked_keys @ [key] else integrity_checked_keys,
         if state_get ss key then Some (Area row) else selected_area))"

text \<open>\<open>p2_integrity = selected_area if selected_area else (recommended_area if
  recommended_area else "\<dots> select \<dots>")\<close>.\<close>

definition p2_integrity_of :: "string option \<Rightarrow> string option \<Rightarrow> string" where
  "p2_integrity_of selected_area recommended_area =
     (if str_truthy selected_area then the selected_area
      else if str_truthy recommended_area then the recommended_area
      else placeholder_select)"

section \<open>One run of the script\<close>

text \<open>What a run of the script that reaches its end computes, and the session state it
  leaves.\<close>

record run =
  plan_warning :: bool
  plan_selected :: "plan_row option"
  recommended_area :: "string option"
  integrity_warning :: bool
  selected_area :: "string option"
  p2_integrity :: string
  state_after :: session_state

text \<open>
  The run from the checkbox table of section 2.3 on, the buttons not pressed. The
  checkboxes of both tables exist when the reset is called. If the reset raises, the run
  ends before \<open>p2_integrity\<close> is assigned: the result is the exception, \<open>selected_area\<close> as
  the loop left it, and the session state at that point.
\<close>

definition integrity_section ::
  "bool \<Rightarrow> plan_row option \<Rightarrow> session_state \<Rightarrow> (error \<times> string option \<times> session_state) + run" where
  "integrity_section warned chosen ss =
     (let recommended = recommended_area_of chosen;
          (integrity_checked_keys, selected) =
             integrity_loop ss (enumerate 0 INTEGRITY_ROWS) ([], None);
          ((warned2, raised), ss') =
             enforce_single_select (plan_keys @ integrity_keys) integrity_checked_keys ss
      in case raised of
           Some e \<Rightarrow> Inl (e, selected, ss')
         | None \<Rightarrow>
             Inr \<lparr> plan_warning = warned, plan_selected = chosen, recommended_area = recommended,
                   integrity_warning = warned2, selected_area = selected,
                   p2_integrity = p2_integrity_of selected recommended, state_after = ss' \<rparr>)"

text \<open>
  A run that an exception ends: in section 1.7, before \<open>plan_selected\<close> is assigned, or in
  section 2.3, with \<open>plan_selected\<close> and \<open>selected_area\<close> as they are at that point. The last
  component is the session state the run leaves.
\<close>

datatype stop =
    Stop_1_7 error session_state
  | Stop_2_3 error "plan_row option" "string option" session_state

fun stop_state :: "stop \<Rightarrow> session_state" where
  "stop_state (Stop_1_7 e ss) = ss"
| "stop_state (Stop_2_3 e chosen selected ss) = ss"

text \<open>The session state a section or a run leaves, whether an exception ended it or not.\<close>

definition section_state :: "(error \<times> session_state) + ('a \<times> session_state) \<Rightarrow> session_state" where
  "section_state res = (case res of Inl (e, ss) \<Rightarrow> ss | Inr (x, ss) \<Rightarrow> ss)"

definition integrity_state :: "(error \<times> string option \<times> session_state) + run \<Rightarrow> session_state" where
  "integrity_state res = (case res of Inl (e, selected, ss) \<Rightarrow> ss | Inr r \<Rightarrow> state_after r)"

definition final_state :: "stop + run \<Rightarrow> session_state" where
  "final_state res = (case res of Inl s \<Rightarrow> stop_state s | Inr r \<Rightarrow> state_after r)"

text \<open>A run in which no button is pressed.\<close>

definition script_run :: "session_state \<Rightarrow> stop + run" where
  "script_run ss =
     (case plan_section ss of
        Inl (e, ss') \<Rightarrow> Inl (Stop_1_7 e ss')
      | Inr ((warned, chosen), ss1) \<Rightarrow>
          (case integrity_section warned chosen ss1 of
             Inl (e, selected, ss') \<Rightarrow> Inl (Stop_2_3 e chosen selected ss')
           | Inr r \<Rightarrow> Inr r))"

text \<open>
  The buttons of section 2.3. \<open>st.button\<close> is true in the run its click starts, unless
  the button is disabled; \<open>st.rerun()\<close> abandons the run and starts one in which no button
  is pressed. The buttons come before the checkboxes of section 2.3, so that their
  assignments to the integrity keys are allowed.
\<close>

datatype button = No_Button | Use_Recommended | Clear_Selection

definition script :: "button \<Rightarrow> session_state \<Rightarrow> stop + run" where
  "script pressed ss =
     (case plan_section ss of
        Inl (e, ss') \<Rightarrow> Inl (Stop_1_7 e ss')
      | Inr ((warned, chosen), ss1) \<Rightarrow>
          (let recommended = recommended_area_of chosen
           in if pressed = Use_Recommended \<and> str_truthy recommended
              then script_run (use_recommended_loop recommended (enumerate 0 INTEGRITY_ROWS) ss1)
              else if pressed = Clear_Selection
              then script_run (clear_selection_loop (enumerate 0 INTEGRITY_ROWS) ss1)
              else (case integrity_section warned chosen ss1 of
                      Inl (e, selected, ss') \<Rightarrow> Inl (Stop_2_3 e chosen selected ss')
                    | Inr r \<Rightarrow> Inr r)))"

section \<open>Export\<close>

text \<open>
  The dictionary \<open>selections\<close> built at the end of a run; the field \<open>sel_k\<close> holds
  the entry of key \<open>k\<close>.
\<close>

record selections =
  sel_plan_gap :: string
  sel_plan_iface :: string
  sel_plan_fix :: string
  sel_plan_ref :: string
  sel_p2_integrity :: string
  sel_include_all_options :: bool

definition make_selections :: "run \<Rightarrow> bool \<Rightarrow> selections" where
  "make_selections r include_all_options =
     (case plan_selected r of
        Some row \<Rightarrow>
          \<lparr> sel_plan_gap = Gap row, sel_plan_iface = Suggested_Interface_Type row,
            sel_plan_fix = Suggested_Fix row, sel_plan_ref = Reference row,
            sel_p2_integrity = p2_integrity r, sel_include_all_options = include_all_options \<rparr>
      | None \<Rightarrow>
          \<lparr> sel_plan_gap = placeholder_choose, sel_plan_iface = placeholder_select,
            sel_plan_fix = placeholder_choose, sel_plan_ref = em_dash,
            sel_p2_integrity = p2_integrity r, sel_include_all_options = include_all_options \<rparr>)"

text \<open>
  \<open>sel_or_dash(val)\<close> of \<open>build_pdf\<close>; its argument is the result of a
  \<open>selections.get\<close>, which may be \<open>None\<close>.
\<close>

definition sel_or_dash :: "string option \<Rightarrow> string" where
  "sel_or_dash val =
     (if str_truthy val \<and> the val \<notin> set [placeholder_select, placeholder_choose]
      then the val else em_dash)"

text \<open>
  The cells \<open>build_pdf\<close> passes to \<open>make_table\<close> for the two selection tables:
  the four rows of the summary of section 1.7 and the row of section 2.3.
\<close>

record selection_cells =
  cell_gap :: string
  cell_iface :: string
  cell_fix :: string
  cell_ref :: string
  cell_integrity :: string

definition build_pdf_cells :: "selections \<Rightarrow> selection_cells" where
  "build_pdf_cells sel =
     \<lparr> cell_gap = sel_or_dash (Some (sel_plan_gap sel)),
       cell_iface = sel_or_dash (Some (sel_plan_iface sel)),
       cell_fix = sel_or_dash (Some (sel_plan_fix sel)),
       cell_ref = sel_or_dash (Some (sel_plan_ref sel)),
       cell_integrity = sel_or_dash (Some (sel_p2_integrity sel)) \<rparr>"

section \<open>User interaction\<close>

text \<open>
  Every interaction of the user starts one run of the script on the session state the
  interaction produced. A click on a checkbox flips the value stored under its key; a
  batch of observed checkbox values stores each value under its key; a click on a button
  leaves the stored values to the script.
\<close>

datatype interaction =
    Toggle string
  | Observe "(string \<times> bool) list"
  | Press button

fun store_observed :: "(string \<times> bool) list \<Rightarrow> session_state \<Rightarrow> session_state" where
  "store_observed [] ss = ss"
| "store_observed ((k, b) # rest) ss = store_observed rest (ss(k \<mapsto> b))"

fun interact :: "interaction \<Rightarrow> session_state \<Rightarrow> stop + run" where
  "interact (Toggle k) ss = script No_Button (ss(k \<mapsto> \<not> state_get ss k))"
| "interact (Observe batch) ss = script No_Button (store_observed batch ss)"
| "interact (Press b) ss = script b ss"

text \<open>The session state after a sequence of interactions.\<close>

fun interactions :: "interaction list \<Rightarrow> session_state \<Rightarrow> session_state" where
  "interactions [] ss = ss"
| "interactions (a # as) ss = interactions as (final_state (interact a ss))"

text \<open>The rows of a table whose checkbox is set in a session state.\<close>

definition plan_rows_set :: "session_state \<Rightarrow> plan_row list" where
  "plan_rows_set ss = map snd (filter (\<lambda>(i, row). state_get ss (plan_key i row)) (enumerate 0 PLAN_ROWS))"

definition integrity_rows_set :: "session_state \<Rightarrow> integrity_row list" where
  "integrity_rows_set ss =
     map snd (filter (\<lambda>(i, row). state_get ss (integrity_key i row)) (enumerate 0 INTEGRITY_ROWS))"

text \<open>The first row set in the plan table, and the \<open>Area\<close> of the last row set in the
  integrity table.\<close>

definition first_plan_row_set :: "session_state \<Rightarrow> plan_row option" where
  "first_plan_row_set ss = (case plan_rows_set ss of [] \<Rightarrow> None | row # _ \<Rightarrow> Some row)"

definition last_area_set :: "session_state \<Rightarrow> string option" where
  "last_area_set ss = (case rev (integrity_rows_set ss) of [] \<Rightarrow> None | row # _ \<Rightarrow> Some (Area row))"

text \<open>What a run without a pressed button computes on a session state in which neither
  table has more than one row set (see \<open>script_run_eq\<close> below).\<close>

definition run_without_conflict :: "session_state \<Rightarrow> run" where
  "run_without_conflict ss =
     \<lparr> plan_warning = False, plan_selected = first_plan_row_set ss,
       recommended_area = recommended_area_of (first_plan_row_set ss),
       integrity_warning = False, selected_area = last_area_set ss,
       p2_integrity = p2_integrity_of (last_area_set ss) (recommended_area_of (first_plan_row_set ss)),
       state_after = ss \<rparr>"

section \<open>Facts about the loops\<close>

lemma reset_other_checkboxes_frame:
  "k \<notin> set checked_keys \<Longrightarrow>
     snd (reset_other_checkboxes widgets checked_keys keep_key ss) k = ss k"
  by (induction checked_keys arbitrary: ss) auto

lemma reset_other_checkboxes_unknown:
  "(\<forall>k \<in> set ks. ss k = None) \<Longrightarrow> reset_other_checkboxes widgets ks keep_key ss = (None, ss)"
  by (induction ks) (auto simp: state_get_def)

lemma reset_other_checkboxes_raises:
  "k0 \<noteq> k1 \<Longrightarrow> state_get ss k1 \<Longrightarrow> k1 \<in> set widgets \<Longrightarrow>
     reset_other_checkboxes widgets (k0 # k1 # ks) k0 ss = (Some StreamlitAPIException, ss)"
  by simp

lemma enforce_noconflict:
  "length chk \<le> 1 \<Longrightarrow> enforce_single_select widgets chk ss = ((False, None), ss)"
  by (simp add: enforce_single_select_def)

lemma enforce_conflict:
  assumes "length chk > 1" "distinct chk" "\<forall>k \<in> set chk. state_get ss k" "set chk \<subseteq> set widgets"
  shows "enforce_single_select widgets chk ss = ((True, Some StreamlitAPIException), ss)"
proof -
  obtain k0 k1 ks where c: "chk = k0 # k1 # ks"
    using assms(1) by (cases chk; cases "tl chk") auto
  have "reset_other_checkboxes widgets (k0 # k1 # ks) k0 ss = (Some StreamlitAPIException, ss)"
    using assms(2-4) unfolding c by (intro reset_other_checkboxes_raises) auto
  then show ?thesis using assms(1) by (simp add: enforce_single_select_def c)
qed

lemma enforce_frame:
  "k \<notin> set chk \<Longrightarrow> snd (enforce_single_select widgets chk ss) k = ss k"
  by (simp add: enforce_single_select_def reset_other_checkboxes_frame case_prod_unfold Let_def)

lemma plan_checked_loop_fst:
  "fst (plan_checked_loop ss rows (acc, ci)) =
     acc @ map (\<lambda>(i, row). plan_key i row) (filter (\<lambda>(i, row). state_get ss (plan_key i row)) rows)"
  by (induction rows arbitrary: acc ci) (auto simp: checkbox_def Let_def)

lemma plan_selected_loop_eq:
  "plan_selected_loop ss rows =
     (case filter (\<lambda>(i, row). state_get ss (plan_key i row)) rows of [] \<Rightarrow> None | (i, row) # _ \<Rightarrow> Some row)"
  by (induction rows) auto

lemma integrity_loop_fst:
  "fst (integrity_loop ss rows (acc, sel)) =
     acc @ map (\<lambda>(i, row). integrity_key i row) (filter (\<lambda>(i, row). state_get ss (integrity_key i row)) rows)"
  by (induction rows arbitrary: acc sel) (auto simp: checkbox_def Let_def)

lemma integrity_loop_snd:
  "snd (integrity_loop ss rows (acc, sel)) =
     (case rev (filter (\<lambda>(i, row). state_get ss (integrity_key i row)) rows) of
        [] \<Rightarrow> sel | (i, row) # _ \<Rightarrow> Some (Area row))"
  by (induction rows arbitrary: acc sel) (auto simp: Let_def split: list.splits)

lemma filter_key_single:
  "distinct (map f xs) \<Longrightarrow> x0 \<in> set xs \<Longrightarrow>
     filter (\<lambda>x. P x \<and> f x = f x0) xs = (if P x0 then [x0] else [])"
proof (induction xs)
  case Nil
  then show ?case by simp
next
  case (Cons a xs)
  show ?case
  proof (cases "a = x0")
    case True
    have "filter (\<lambda>x. P x \<and> f x = f x0) xs = []"
      using Cons.prems True by (force simp: filter_empty_conv image_iff)
    then show ?thesis using True by simp
  next
    case False
    then have "f a \<noteq> f x0" using Cons.prems by auto
    then show ?thesis using Cons False by auto
  qed
qed

lemma filter_by_key_single:
  "distinct (map f xs) \<Longrightarrow> a \<in> set (map f xs) \<Longrightarrow> \<exists>x0. filter (\<lambda>x. f x = a) xs = [x0] \<and> f x0 = a"
proof -
  assume d: "distinct (map f xs)" and "a \<in> set (map f xs)"
  then obtain x0 where x0: "x0 \<in> set xs" "f x0 = a" by auto
  have "filter (\<lambda>x. True \<and> f x = f x0) xs = [x0]"
    using filter_key_single[OF d x0(1), of "\<lambda>_. True"] by simp
  then show ?thesis using x0(2) by auto
qed

lemma map_snd_filter_enumerate:
  "map snd (filter (\<lambda>x. Q (snd x)) (enumerate n xs)) = filter Q xs"
  by (induction xs arbitrary: n) auto

lemma checked_keys_facts:
  assumes "distinct (map f xs)"
  shows "distinct (map f (filter (\<lambda>x. state_get ss (f x)) xs))"
    "\<forall>k \<in> set (map f (filter (\<lambda>x. state_get ss (f x)) xs)). state_get ss k"
    "set (map f (filter (\<lambda>x. state_get ss (f x)) xs)) \<subseteq> set (map f xs)"
  using assms by (auto simp: distinct_map_filter)

section \<open>Facts about the keys and the two sections\<close>

lemma plan_keys_eval:
  "plan_keys = [''plan_row_0_Data_Silos'', ''plan_row_1_Inconsistent_Patient_IDs'',
     ''plan_row_2_Missing_Clinical_Context'', ''plan_row_3_No_FHIR_Connection'',
     ''plan_row_4_Data_Integrity_Security'']"
  by code_simp

lemma integrity_keys_eval:
  "integrity_keys = [''p2_integrity_0_Data_Accuracy_Integrity_'',
     ''p2_integrity_1_Access_Tracking_Audit_Logs_'', ''p2_integrity_2_Error_Detection_Alerts'',
     ''p2_integrity_3_Patient_Identity_Management_MPI_'']"
  by code_simp

lemma distinct_plan_keys: "distinct plan_keys"
  by (simp add: plan_keys_eval)

lemma distinct_integrity_keys: "distinct integrity_keys"
  by (simp add: integrity_keys_eval)

lemma keys_disjoint: "set plan_keys \<inter> set integrity_keys = {}"
  by (simp add: plan_keys_eval integrity_keys_eval)

lemma plan_key_not_integrity: "k \<in> set plan_keys \<Longrightarrow> k \<notin> set integrity_keys"
  using keys_disjoint by auto

lemma integrity_key_not_plan: "k \<in> set integrity_keys \<Longrightarrow> k \<notin> set plan_keys"
  using keys_disjoint by auto

lemma plan_rows_set_cong:
  "(\<And>k. k \<in> set plan_keys \<Longrightarrow> ss k = ss' k) \<Longrightarrow> plan_rows_set ss = plan_rows_set ss'"
proof -
  assume h: "\<And>k. k \<in> set plan_keys \<Longrightarrow> ss k = ss' k"
  have "\<And>x. x \<in> set (enumerate 0 PLAN_ROWS) \<Longrightarrow>
          state_get ss (plan_key (fst x) (snd x)) = state_get ss' (plan_key (fst x) (snd x))"
  proof -
    fix x assume "x \<in> set (enumerate 0 PLAN_ROWS)"
    then have "(\<lambda>(i, row). plan_key i row) x \<in> set plan_keys"
      unfolding plan_keys_def by simp
    then have "plan_key (fst x) (snd x) \<in> set plan_keys"
      by (simp add: case_prod_unfold)
    then show "state_get ss (plan_key (fst x) (snd x)) = state_get ss' (plan_key (fst x) (snd x))"
      using h by (simp add: state_get_def)
  qed
  then show ?thesis
    unfolding plan_rows_set_def case_prod_unfold by (simp cong: filter_cong)
qed

lemma integrity_rows_set_cong:
  "(\<And>k. k \<in> set integrity_keys \<Longrightarrow> ss k = ss' k) \<Longrightarrow> integrity_rows_set ss = integrity_rows_set ss'"
proof -
  assume h: "\<And>k. k \<in> set integrity_keys \<Longrightarrow> ss k = ss' k"
  have "\<And>x. x \<in> set (enumerate 0 INTEGRITY_ROWS) \<Longrightarrow>
          state_get ss (integrity_key (fst x) (snd x)) = state_get ss' (integrity_key (fst x) (snd x))"
  proof -
    fix x assume "x \<in> set (enumerate 0 INTEGRITY_ROWS)"
    then have "(\<lambda>(i, row). integrity_key i row) x \<in> set integrity_keys"
      unfolding integrity_keys_def by simp
    then have "integrity_key (fst x) (snd x) \<in> set integrity_keys"
      by (simp add: case_prod_unfold)
    then show "state_get ss (integrity_key (fst x) (snd x)) = state_get ss' (integrity_key (fst x) (snd x))"
      using h by (simp add: state_get_def)
  qed
  then show ?thesis
    unfolding integrity_rows_set_def case_prod_unfold by (simp cong: filter_cong)
qed

lemma plan_rows_set_subset: "set (plan_rows_set ss) \<subseteq> set PLAN_ROWS"
proof -
  have "set (plan_rows_set ss) \<subseteq> snd ` set (enumerate 0 PLAN_ROWS)"
    unfolding plan_rows_set_def by auto
  also have "\<dots> = set (map snd (enumerate 0 PLAN_ROWS))" by (simp only: set_map)
  also have "\<dots> = set PLAN_ROWS" by (simp only: map_snd_enumerate)
  finally show ?thesis .
qed

lemma integrity_rows_set_subset: "set (integrity_rows_set ss) \<subseteq> set INTEGRITY_ROWS"
proof -
  have "set (integrity_rows_set ss) \<subseteq> snd ` set (enumerate 0 INTEGRITY_ROWS)"
    unfolding integrity_rows_set_def by auto
  also have "\<dots> = set (map snd (enumerate 0 INTEGRITY_ROWS))" by (simp only: set_map)
  also have "\<dots> = set INTEGRITY_ROWS" by (simp only: map_snd_enumerate)
  finally show ?thesis .
qed

lemma rows_set_empty_state:
  "plan_rows_set Map.empty = []" "integrity_rows_set Map.empty = []"
  by (simp_all add: plan_rows_set_def integrity_rows_set_def state_get_def case_prod_unfold)

lemma rows_set_other_key:
  assumes "k \<notin> set plan_keys" "k \<notin> set integrity_keys"
  shows "plan_rows_set (ss(k \<mapsto> b)) = plan_rows_set ss"
    "integrity_rows_set (ss(k \<mapsto> b)) = integrity_rows_set ss"
proof -
  show "plan_rows_set (ss(k \<mapsto> b)) = plan_rows_set ss"
    by (rule plan_rows_set_cong) (use assms(1) in auto)
  show "integrity_rows_set (ss(k \<mapsto> b)) = integrity_rows_set ss"
    by (rule integrity_rows_set_cong) (use assms(2) in auto)
qed

text \<open>Section 1.7 raises exactly when more than one plan row is set, and never writes.\<close>

lemma plan_section_eq:
  "plan_section ss =
     (if length (plan_rows_set ss) > 1 then Inl (StreamlitAPIException, ss)
      else Inr ((False, first_plan_row_set ss), ss))"
proof -
  let ?f = "\<lambda>(i, row). plan_key i row"
  let ?chk = "map ?f (filter (\<lambda>x. state_get ss (?f x)) (enumerate 0 PLAN_ROWS))"
  have d: "distinct (map ?f (enumerate 0 PLAN_ROWS))"
    using distinct_plan_keys by (simp add: plan_keys_def)
  obtain chk ci where l: "plan_checked_loop ss (enumerate 0 PLAN_ROWS) ([], None) = (chk, ci)"
    by (cases "plan_checked_loop ss (enumerate 0 PLAN_ROWS) ([], None)")
  have chk: "chk = ?chk"
    using plan_checked_loop_fst[of ss "enumerate 0 PLAN_ROWS" "[]" None] l
    by (simp add: case_prod_unfold)
  have len: "length chk = length (plan_rows_set ss)"
    by (simp add: chk plan_rows_set_def case_prod_unfold)
  show ?thesis
  proof (cases "length (plan_rows_set ss) > 1")
    case True
    have "enforce_single_select plan_keys ?chk ss = ((True, Some StreamlitAPIException), ss)"
    proof (rule enforce_conflict)
      show "1 < length ?chk" using True len chk by simp
      show "distinct ?chk" by (rule checked_keys_facts(1)[OF d])
      show "\<forall>k \<in> set ?chk. state_get ss k" by (rule checked_keys_facts(2)[OF d])
      show "set ?chk \<subseteq> set plan_keys"
        using checked_keys_facts(3)[OF d, of ss] by (simp add: plan_keys_def)
    qed
    then show ?thesis using True by (simp add: plan_section_def l chk)
  next
    case False
    then have "enforce_single_select plan_keys chk ss = ((False, None), ss)"
      using len by (intro enforce_noconflict) simp
    moreover have "plan_selected_loop ss (enumerate 0 PLAN_ROWS) = first_plan_row_set ss"
      by (simp add: plan_selected_loop_eq first_plan_row_set_def plan_rows_set_def
            split: list.splits prod.splits)
    ultimately show ?thesis using False by (simp add: plan_section_def l)
  qed
qed

text \<open>Section 2.3 raises exactly when more than one integrity row is set, and never
  writes; \<open>selected_area\<close> is the last row set.\<close>

lemma integrity_section_eq:
  "integrity_section warned chosen ss =
     (if length (integrity_rows_set ss) > 1 then Inl (StreamlitAPIException, last_area_set ss, ss)
      else Inr \<lparr> plan_warning = warned, plan_selected = chosen,
                 recommended_area = recommended_area_of chosen,
                 integrity_warning = False, selected_area = last_area_set ss,
                 p2_integrity = p2_integrity_of (last_area_set ss) (recommended_area_of chosen),
                 state_after = ss \<rparr>)"
proof -
  let ?f = "\<lambda>(i, row). integrity_key i row"
  let ?chk = "map ?f (filter (\<lambda>x. state_get ss (?f x)) (enumerate 0 INTEGRITY_ROWS))"
  have d: "distinct (map ?f (enumerate 0 INTEGRITY_ROWS))"
    using distinct_integrity_keys by (simp add: integrity_keys_def)
  obtain chk sel where l: "integrity_loop ss (enumerate 0 INTEGRITY_ROWS) ([], None) = (chk, sel)"
    by (cases "integrity_loop ss (enumerate 0 INTEGRITY_ROWS) ([], None)")
  have chk: "chk = ?chk"
    using integrity_loop_fst[of ss "enumerate 0 INTEGRITY_ROWS" "[]" None] l
    by (simp add: case_prod_unfold)
  have sel: "sel = last_area_set ss"
    using integrity_loop_snd[of ss "enumerate 0 INTEGRITY_ROWS" "[]" None] l
    by (simp add: last_area_set_def integrity_rows_set_def rev_map[symmetric]
          split: list.splits prod.splits)
  have len: "length chk = length (integrity_rows_set ss)"
    by (simp add: chk integrity_rows_set_def case_prod_unfold)
  show ?thesis
  proof (cases "length (integrity_rows_set ss) > 1")
    case True
    have "enforce_single_select (plan_keys @ integrity_keys) ?chk ss
            = ((True, Some StreamlitAPIException), ss)"
    proof (rule enforce_conflict)
      show "1 < length ?chk" using True len chk by simp
      show "distinct ?chk" by (rule checked_keys_facts(1)[OF d])
      show "\<forall>k \<in> set ?chk. state_get ss k" by (rule checked_keys_facts(2)[OF d])
      show "set ?chk \<subseteq> set (plan_keys @ integrity_keys)"
        using checked_keys_facts(3)[OF d, of ss] by (auto simp: integrity_keys_def)
    qed
    then show ?thesis using True by (simp add: integrity_section_def l chk sel Let_def)
  next
    case False
    then have "enforce_single_select (plan_keys @ integrity_keys) chk ss = ((False, None), ss)"
      using len by (intro enforce_noconflict) simp
    then show ?thesis using False by (simp add: integrity_section_def l sel Let_def)
  qed
qed

section \<open>Facts about the tables, the buttons and the export\<close>

lemma areas_eval:
  "map Area INTEGRITY_ROWS = [''Data Accuracy (Integrity)'', ''Access Tracking (Audit Logs)'',
     ''Error Detection & Alerts'', ''Patient Identity Management (MPI)'']"
  by (simp add: INTEGRITY_ROWS_def)

lemma gaps_eval:
  "map Gap PLAN_ROWS = [''Data Silos'', ''Inconsistent Patient IDs'', ''Missing Clinical Context'',
     ''No FHIR Connection'', ''Data Integrity & Security'']"
  by (simp add: PLAN_ROWS_def)

lemma distinct_areas: "distinct (map Area INTEGRITY_ROWS)"
  by (simp add: areas_eval)

lemma areas_nonempty: "row \<in> set INTEGRITY_ROWS \<Longrightarrow> Area row \<noteq> []"
  by (auto simp: INTEGRITY_ROWS_def)

lemma recommended_for_gap:
  "g \<in> set (map Gap PLAN_ROWS) \<Longrightarrow>
     \<exists>a. RECOMMENDED_INTEGRITY g = Some a \<and> a \<noteq> [] \<and> a \<in> set (map Area INTEGRITY_ROWS)"
  unfolding gaps_eval areas_eval
  by (auto simp: RECOMMENDED_INTEGRITY_def RECOMMENDED_INTEGRITY_items_def)

lemma recommended_value_valid:
  "RECOMMENDED_INTEGRITY g = Some a \<Longrightarrow> a \<noteq> [] \<and> a \<in> set (map Area INTEGRITY_ROWS)"
proof -
  assume "RECOMMENDED_INTEGRITY g = Some a"
  then have "(g, a) \<in> set RECOMMENDED_INTEGRITY_items"
    unfolding RECOMMENDED_INTEGRITY_def by (rule map_of_SomeD)
  then show ?thesis
    unfolding areas_eval by (auto simp: RECOMMENDED_INTEGRITY_items_def)
qed

lemma recommended_key_known:
  "RECOMMENDED_INTEGRITY g = Some a \<Longrightarrow> g \<in> set (map Gap PLAN_ROWS)"
proof -
  assume "RECOMMENDED_INTEGRITY g = Some a"
  then have "(g, a) \<in> set RECOMMENDED_INTEGRITY_items"
    unfolding RECOMMENDED_INTEGRITY_def by (rule map_of_SomeD)
  then show ?thesis
    unfolding gaps_eval by (auto simp: RECOMMENDED_INTEGRITY_items_def)
qed

lemma recommended_unknown_gap:
  "g \<notin> set (map Gap PLAN_ROWS) \<Longrightarrow> RECOMMENDED_INTEGRITY g = None"
  using recommended_key_known[of g] by (cases "RECOMMENDED_INTEGRITY g") auto

lemma use_recommended_loop_apply:
  "distinct (map (\<lambda>(i, row). integrity_key i row) rows) \<Longrightarrow>
   use_recommended_loop rec rows ss k =
     (case filter (\<lambda>(i, row). integrity_key i row = k) rows of
        [] \<Rightarrow> ss k | (i, row) # _ \<Rightarrow> Some (Some (Area row) = rec))"
proof (induction rows arbitrary: ss)
  case Nil
  then show ?case by simp
next
  case (Cons a rows)
  obtain i row where a: "a = (i, row)" by (cases a)
  show ?case
  proof (cases "integrity_key i row = k")
    case True
    then have "filter (\<lambda>(i, row). integrity_key i row = k) rows = []"
      using Cons.prems a by (force simp: filter_empty_conv image_iff)
    then show ?thesis using Cons a True by simp
  next
    case False
    then show ?thesis using Cons a by (auto split: list.splits)
  qed
qed

lemma clear_selection_loop_apply:
  "clear_selection_loop rows ss k =
     (if k \<in> set (map (\<lambda>(i, row). integrity_key i row) rows) then Some False else ss k)"
  by (induction rows arbitrary: ss) auto

lemma use_recommended_frame:
  "k \<notin> set integrity_keys \<Longrightarrow> use_recommended_loop rec (enumerate 0 INTEGRITY_ROWS) ss k = ss k"
proof -
  assume k: "k \<notin> set integrity_keys"
  have d: "distinct (map (\<lambda>(i, row). integrity_key i row) (enumerate 0 INTEGRITY_ROWS))"
    using distinct_integrity_keys by (simp add: integrity_keys_def)
  have "filter (\<lambda>(i, row). integrity_key i row = k) (enumerate 0 INTEGRITY_ROWS) = []"
    using k by (force simp: filter_empty_conv integrity_keys_def image_iff)
  then show ?thesis by (simp add: use_recommended_loop_apply[OF d])
qed

lemma clear_selection_frame:
  "k \<notin> set integrity_keys \<Longrightarrow> clear_selection_loop (enumerate 0 INTEGRITY_ROWS) ss k = ss k"
  by (simp add: clear_selection_loop_apply integrity_keys_def)

lemma integrity_rows_set_clear:
  "integrity_rows_set (clear_selection_loop (enumerate 0 INTEGRITY_ROWS) ss) = []"
  by (force simp: integrity_rows_set_def filter_empty_conv clear_selection_loop_apply state_get_def image_iff)

lemma integrity_rows_set_use_recommended:
  "integrity_rows_set (use_recommended_loop rec (enumerate 0 INTEGRITY_ROWS) ss) =
     filter (\<lambda>row. Some (Area row) = rec) INTEGRITY_ROWS"
proof -
  have d: "distinct (map (\<lambda>(i, row). integrity_key i row) (enumerate 0 INTEGRITY_ROWS))"
    using distinct_integrity_keys by (simp add: integrity_keys_def)
  have "\<And>x. x \<in> set (enumerate 0 INTEGRITY_ROWS) \<Longrightarrow>
          state_get (use_recommended_loop rec (enumerate 0 INTEGRITY_ROWS) ss) (integrity_key (fst x) (snd x))
          = (Some (Area (snd x)) = rec)"
  proof -
    fix x assume x: "x \<in> set (enumerate 0 INTEGRITY_ROWS)"
    have "filter (\<lambda>y. integrity_key (fst y) (snd y) = integrity_key (fst x) (snd x)) (enumerate 0 INTEGRITY_ROWS) = [x]"
      using filter_key_single[OF d x, of "\<lambda>_. True"] by (simp add: case_prod_unfold)
    then show "state_get (use_recommended_loop rec (enumerate 0 INTEGRITY_ROWS) ss) (integrity_key (fst x) (snd x))
          = (Some (Area (snd x)) = rec)"
      by (simp add: use_recommended_loop_apply[OF d] state_get_def case_prod_unfold)
  qed
  then have "filter (\<lambda>x. state_get (use_recommended_loop rec (enumerate 0 INTEGRITY_ROWS) ss) (integrity_key (fst x) (snd x))) (enumerate 0 INTEGRITY_ROWS)
      = filter (\<lambda>x. Some (Area (snd x)) = rec) (enumerate 0 INTEGRITY_ROWS)"
    by (simp cong: filter_cong)
  then have "integrity_rows_set (use_recommended_loop rec (enumerate 0 INTEGRITY_ROWS) ss)
      = map snd (filter (\<lambda>x. Some (Area (snd x)) = rec) (enumerate 0 INTEGRITY_ROWS))"
    by (simp add: integrity_rows_set_def case_prod_unfold)
  also have "\<dots> = filter (\<lambda>row. Some (Area row) = rec) INTEGRITY_ROWS"
    by (rule map_snd_filter_enumerate)
  finally show ?thesis .
qed

lemma use_recommended_at_key:
  assumes "(i, row) \<in> set (enumerate 0 INTEGRITY_ROWS)"
  shows "use_recommended_loop rec (enumerate 0 INTEGRITY_ROWS) ss (integrity_key i row)
           = Some (Some (Area row) = rec)"
proof -
  have d: "distinct (map (\<lambda>(i, row). integrity_key i row) (enumerate 0 INTEGRITY_ROWS))"
    using distinct_integrity_keys by (simp add: integrity_keys_def)
  have "filter (\<lambda>y. True \<and> (\<lambda>(i, row). integrity_key i row) y = (\<lambda>(i, row). integrity_key i row) (i, row))
          (enumerate 0 INTEGRITY_ROWS) = [(i, row)]"
    using filter_key_single[OF d assms, of "\<lambda>_. True"] by simp
  then have "filter (\<lambda>(j, r). integrity_key j r = integrity_key i row) (enumerate 0 INTEGRITY_ROWS) = [(i, row)]"
    by (simp add: case_prod_unfold)
  then show ?thesis by (simp add: use_recommended_loop_apply[OF d])
qed

lemma plan_rows_set_use_recommended:
  "plan_rows_set (use_recommended_loop rec (enumerate 0 INTEGRITY_ROWS) ss) = plan_rows_set ss"
  by (rule plan_rows_set_cong) (simp add: use_recommended_frame plan_key_not_integrity)

lemma plan_rows_set_clear:
  "plan_rows_set (clear_selection_loop (enumerate 0 INTEGRITY_ROWS) ss) = plan_rows_set ss"
  by (rule plan_rows_set_cong) (simp add: clear_selection_frame plan_key_not_integrity)

lemma sel_or_dash_area: "a \<in> set (map Area INTEGRITY_ROWS) \<Longrightarrow> sel_or_dash (Some a) = a"
  unfolding areas_eval
  by (auto simp: sel_or_dash_def placeholder_select_def placeholder_choose_def em_dash_def)

lemma sel_or_dash_placeholder:
  "sel_or_dash (Some placeholder_select) = em_dash"
  "sel_or_dash (Some placeholder_choose) = em_dash"
  "sel_or_dash (Some em_dash) = em_dash"
  "sel_or_dash (Some []) = em_dash"
  "sel_or_dash None = em_dash"
  by (simp_all add: sel_or_dash_def)

lemma sel_or_dash_plan_row:
  assumes "row \<in> set PLAN_ROWS"
  shows "sel_or_dash (Some (Gap row)) = Gap row"
    "sel_or_dash (Some (Suggested_Interface_Type row)) = Suggested_Interface_Type row"
    "sel_or_dash (Some (Suggested_Fix row)) = Suggested_Fix row"
    "sel_or_dash (Some (Reference row)) = Reference row"
  using assms
  by (auto simp: PLAN_ROWS_def sel_or_dash_def placeholder_select_def placeholder_choose_def
        em_dash_def en_dash_def sect_sign_def rarrow_def)

lemma sel_or_dash_other:
  "v \<noteq> [] \<Longrightarrow> v \<noteq> placeholder_select \<Longrightarrow> v \<noteq> placeholder_choose \<Longrightarrow> sel_or_dash (Some v) = v"
  by (simp add: sel_or_dash_def)

lemma build_pdf_cells_fields:
  "cell_integrity (build_pdf_cells (make_selections r inc)) = sel_or_dash (Some (p2_integrity r))"
  "plan_selected r = None \<Longrightarrow> cell_gap (build_pdf_cells (make_selections r inc)) = em_dash"
  "plan_selected r = None \<Longrightarrow> cell_iface (build_pdf_cells (make_selections r inc)) = em_dash"
  "plan_selected r = None \<Longrightarrow> cell_fix (build_pdf_cells (make_selections r inc)) = em_dash"
  "plan_selected r = None \<Longrightarrow> cell_ref (build_pdf_cells (make_selections r inc)) = em_dash"
  "plan_selected r = Some row \<Longrightarrow>
     cell_gap (build_pdf_cells (make_selections r inc)) = sel_or_dash (Some (Gap row))"
  "plan_selected r = Some row \<Longrightarrow>
     cell_iface (build_pdf_cells (make_selections r inc)) = sel_or_dash (Some (Suggested_Interface_Type row))"
  "plan_selected r = Some row \<Longrightarrow>
     cell_fix (build_pdf_cells (make_selections r inc)) = sel_or_dash (Some (Suggested_Fix row))"
  "plan_selected r = Some row \<Longrightarrow>
     cell_ref (build_pdf_cells (make_selections r inc)) = sel_or_dash (Some (Reference row))"
  by (simp_all add: build_pdf_cells_def make_selections_def sel_or_dash_placeholder split: option.splits)

section \<open>Facts about a run of the script\<close>

lemma script_run_eq:
  "script_run ss =
     (if length (plan_rows_set ss) > 1 then Inl (Stop_1_7 StreamlitAPIException ss)
      else if length (integrity_rows_set ss) > 1
      then Inl (Stop_2_3 StreamlitAPIException (first_plan_row_set ss) (last_area_set ss) ss)
      else Inr (run_without_conflict ss))"
  by (simp add: script_run_def plan_section_eq integrity_section_eq run_without_conflict_def)

lemma script_eq:
  "script pressed ss =
     (if length (plan_rows_set ss) > 1 then Inl (Stop_1_7 StreamlitAPIException ss)
      else if pressed = Use_Recommended \<and> str_truthy (recommended_area_of (first_plan_row_set ss))
      then script_run (use_recommended_loop (recommended_area_of (first_plan_row_set ss))
                         (enumerate 0 INTEGRITY_ROWS) ss)
      else if pressed = Clear_Selection
      then script_run (clear_selection_loop (enumerate 0 INTEGRITY_ROWS) ss)
      else script_run ss)"
  by (simp add: script_def script_run_eq plan_section_eq integrity_section_eq
        run_without_conflict_def Let_def)

lemma script_No_Button: "script No_Button ss = script_run ss"
  by (simp add: script_eq script_run_eq)

lemma final_state_script_run: "final_state (script_run ss) = ss"
  by (simp add: script_run_eq final_state_def run_without_conflict_def)

lemma script_run_Inr:
  "script_run ss = Inr r \<longleftrightarrow>
     length (plan_rows_set ss) \<le> 1 \<and> length (integrity_rows_set ss) \<le> 1
     \<and> r = run_without_conflict ss"
  by (auto simp: script_run_eq)

lemma script_cases:
  obtains s where "script pressed ss = script_run s"
  using script_eq[of pressed ss] script_run_eq[of ss] by (metis (full_types))

lemma script_Inr:
  "script pressed ss = Inr r \<Longrightarrow>
     \<exists>s. length (plan_rows_set s) \<le> 1 \<and> length (integrity_rows_set s) \<le> 1
         \<and> r = run_without_conflict s"
proof -
  assume h: "script pressed ss = Inr r"
  obtain s where "script pressed ss = script_run s" by (rule script_cases)
  with h have "script_run s = Inr r" by simp
  then show ?thesis unfolding script_run_Inr by blast
qed

lemma first_plan_row_set_valid:
  "first_plan_row_set ss = Some row \<Longrightarrow> row \<in> set PLAN_ROWS"
proof -
  assume "first_plan_row_set ss = Some row"
  then obtain rest where "plan_rows_set ss = row # rest"
    by (auto simp: first_plan_row_set_def split: list.splits)
  then have "row \<in> set (plan_rows_set ss)" by simp
  then show ?thesis using plan_rows_set_subset[of ss] by blast
qed

lemma last_area_set_valid:
  "last_area_set ss = Some x \<Longrightarrow> x \<in> set (map Area INTEGRITY_ROWS) \<and> x \<noteq> []"
proof -
  assume "last_area_set ss = Some x"
  then obtain row rest where r: "rev (integrity_rows_set ss) = row # rest" "x = Area row"
    by (auto simp: last_area_set_def split: list.splits)
  have "row \<in> set (rev (integrity_rows_set ss))" unfolding r(1) by simp
  then have "row \<in> set INTEGRITY_ROWS" using integrity_rows_set_subset[of ss] by auto
  then show ?thesis using r(2) areas_nonempty by auto
qed

lemma recommended_area_of_valid:
  "recommended_area_of chosen = Some y \<Longrightarrow> y \<in> set (map Area INTEGRITY_ROWS) \<and> y \<noteq> []"
proof -
  assume "recommended_area_of chosen = Some y"
  then obtain g where "RECOMMENDED_INTEGRITY g = Some y"
    by (auto simp: recommended_area_of_def split: option.splits)
  then show ?thesis using recommended_value_valid by blast
qed

lemma run_without_conflict_fields:
  "plan_warning (run_without_conflict s) = False"
  "plan_selected (run_without_conflict s) = first_plan_row_set s"
  "recommended_area (run_without_conflict s) = recommended_area_of (first_plan_row_set s)"
  "integrity_warning (run_without_conflict s) = False"
  "selected_area (run_without_conflict s) = last_area_set s"
  "p2_integrity (run_without_conflict s)
     = p2_integrity_of (last_area_set s) (recommended_area_of (first_plan_row_set s))"
  "state_after (run_without_conflict s) = s"
  by (simp_all add: run_without_conflict_def)

lemma completed_run_facts:
  assumes "script pressed ss = Inr r"
  shows "plan_selected r = Some row \<Longrightarrow> row \<in> set PLAN_ROWS"
    "selected_area r = Some x \<Longrightarrow> x \<in> set (map Area INTEGRITY_ROWS) \<and> x \<noteq> []"
    "recommended_area r = Some y \<Longrightarrow> y \<in> set (map Area INTEGRITY_ROWS) \<and> y \<noteq> []"
    "recommended_area r = recommended_area_of (plan_selected r)"
    "p2_integrity r = p2_integrity_of (selected_area r) (recommended_area r)"
    "length (plan_rows_set (state_after r)) \<le> 1"
    "length (integrity_rows_set (state_after r)) \<le> 1"
    "plan_rows_set (state_after r) = (case plan_selected r of None \<Rightarrow> [] | Some row \<Rightarrow> [row])"
proof -
  obtain s where s: "length (plan_rows_set s) \<le> 1" "length (integrity_rows_set s) \<le> 1"
      "r = run_without_conflict s"
    using script_Inr[OF assms] by blast
  show "plan_selected r = Some row \<Longrightarrow> row \<in> set PLAN_ROWS"
    using first_plan_row_set_valid by (simp add: s(3) run_without_conflict_fields)
  show "selected_area r = Some x \<Longrightarrow> x \<in> set (map Area INTEGRITY_ROWS) \<and> x \<noteq> []"
    using last_area_set_valid by (simp add: s(3) run_without_conflict_fields)
  show "recommended_area r = Some y \<Longrightarrow> y \<in> set (map Area INTEGRITY_ROWS) \<and> y \<noteq> []"
    using recommended_area_of_valid by (simp add: s(3) run_without_conflict_fields)
  show "recommended_area r = recommended_area_of (plan_selected r)"
    by (simp add: s(3) run_without_conflict_fields)
  show "p2_integrity r = p2_integrity_of (selected_area r) (recommended_area r)"
    by (simp add: s(3) run_without_conflict_fields)
  show "length (plan_rows_set (state_after r)) \<le> 1"
    using s(1) by (simp add: s(3) run_without_conflict_fields)
  show "length (integrity_rows_set (state_after r)) \<le> 1"
    using s(2) by (simp add: s(3) run_without_conflict_fields)
  show "plan_rows_set (state_after r) = (case plan_selected r of None \<Rightarrow> [] | Some row \<Rightarrow> [row])"
    using s(1) by (cases "plan_rows_set s")
      (simp_all add: s(3) run_without_conflict_fields first_plan_row_set_def)
qed

section \<open>Facts about the buttons and what a run leaves\<close>

lemma plan_section_Inr:
  "plan_section ss = Inr ((warned, chosen), ss1) \<longleftrightarrow>
     length (plan_rows_set ss) \<le> 1 \<and> \<not> warned \<and> chosen = first_plan_row_set ss \<and> ss1 = ss"
  by (auto simp: plan_section_eq)

lemma first_plan_row_set_cong:
  "plan_rows_set s = plan_rows_set s' \<Longrightarrow> first_plan_row_set s = first_plan_row_set s'"
  by (simp add: first_plan_row_set_def)

lemma last_area_set_cong:
  "integrity_rows_set s = integrity_rows_set s' \<Longrightarrow> last_area_set s = last_area_set s'"
  by (simp add: last_area_set_def)

lemma script_Use_Recommended:
  assumes p: "length (plan_rows_set ss) \<le> 1"
    and r: "recommended_area_of (first_plan_row_set ss) = Some a"
  shows "script Use_Recommended ss =
           Inr (run_without_conflict (use_recommended_loop (Some a) (enumerate 0 INTEGRITY_ROWS) ss))"
    "\<exists>x0. integrity_rows_set (use_recommended_loop (Some a) (enumerate 0 INTEGRITY_ROWS) ss) = [x0]
          \<and> Area x0 = a"
proof -
  let ?S = "use_recommended_loop (Some a) (enumerate 0 INTEGRITY_ROWS) ss"
  have a: "a \<in> set (map Area INTEGRITY_ROWS)" "a \<noteq> []"
    using r recommended_area_of_valid by blast+
  obtain x0 where x0: "filter (\<lambda>row. Area row = a) INTEGRITY_ROWS = [x0]" "Area x0 = a"
    using filter_by_key_single[OF distinct_areas a(1)] by blast
  have rows: "integrity_rows_set ?S = [x0]"
    using x0(1) by (simp add: integrity_rows_set_use_recommended)
  show "\<exists>x0. integrity_rows_set ?S = [x0] \<and> Area x0 = a" using rows x0(2) by blast
  have "script Use_Recommended ss = script_run ?S"
    using p r a(2) by (simp add: script_eq)
  also have "\<dots> = Inr (run_without_conflict ?S)"
    using p rows by (simp add: script_run_eq plan_rows_set_use_recommended)
  finally show "script Use_Recommended ss = Inr (run_without_conflict ?S)" .
qed

lemma script_Clear_Selection:
  assumes "length (plan_rows_set ss) \<le> 1"
  shows "script Clear_Selection ss =
           Inr (run_without_conflict (clear_selection_loop (enumerate 0 INTEGRITY_ROWS) ss))"
  using assms
  by (simp add: script_eq script_run_eq plan_rows_set_clear integrity_rows_set_clear)

lemma script_Use_Recommended_disabled:
  "recommended_area_of (first_plan_row_set ss) = None \<Longrightarrow>
     script Use_Recommended ss = script No_Button ss"
  by (simp add: script_eq script_run_eq)

lemma section_state_plan_section: "section_state (plan_section ss) = ss"
  by (simp add: section_state_def plan_section_eq)

lemma integrity_state_integrity_section:
  "integrity_state (integrity_section warned chosen ss) = ss"
  by (simp add: integrity_state_def integrity_section_eq)

lemma final_state_script_frame:
  "k \<notin> set integrity_keys \<Longrightarrow> final_state (script pressed ss) k = ss k"
proof -
  assume k: "k \<notin> set integrity_keys"
  have a: "final_state (Inl (Stop_1_7 StreamlitAPIException ss)) = ss"
    by (simp add: final_state_def)
  show ?thesis
    using k by (simp add: script_eq final_state_script_run use_recommended_frame
          clear_selection_frame a)
qed

lemma plan_section_cong:
  "(\<And>k. k \<in> set plan_keys \<Longrightarrow> ss k = ss' k) \<Longrightarrow>
     map_sum fst fst (plan_section ss) = map_sum fst fst (plan_section ss')"
proof -
  assume "\<And>k. k \<in> set plan_keys \<Longrightarrow> ss k = ss' k"
  then have "plan_rows_set ss = plan_rows_set ss'" by (rule plan_rows_set_cong)
  then show ?thesis by (simp add: plan_section_eq first_plan_row_set_def)
qed

lemma integrity_section_cong:
  assumes "\<And>k. k \<in> set integrity_keys \<Longrightarrow> ss k = ss' k"
  shows "integrity_section warned chosen ss = Inl (e, a, s) \<Longrightarrow>
           \<exists>s'. integrity_section warned' chosen' ss' = Inl (e, a, s')"
    "integrity_section warned chosen ss = Inr r \<Longrightarrow>
           \<exists>r'. integrity_section warned' chosen' ss' = Inr r'
               \<and> selected_area r' = selected_area r
               \<and> integrity_warning r' = integrity_warning r"
proof -
  have e: "integrity_rows_set ss = integrity_rows_set ss'"
    using assms by (rule integrity_rows_set_cong)
  then have l: "last_area_set ss = last_area_set ss'" by (rule last_area_set_cong)
  show "integrity_section warned chosen ss = Inl (e, a, s) \<Longrightarrow>
           \<exists>s'. integrity_section warned' chosen' ss' = Inl (e, a, s')"
    using e l by (auto simp: integrity_section_eq split: if_splits)
  show "integrity_section warned chosen ss = Inr r \<Longrightarrow>
           \<exists>r'. integrity_section warned' chosen' ss' = Inr r'
               \<and> selected_area r' = selected_area r
               \<and> integrity_warning r' = integrity_warning r"
    using e l by (auto simp: integrity_section_eq split: if_splits)
qed

lemma interactions_snoc:
  "interactions (as @ [a]) ss = final_state (interact a (interactions as ss))"
  by (induction as arbitrary: ss) simp_all

lemma interact_cases:
  obtains pressed s where "interact a ss = script pressed s"
  by (cases a) auto

lemma script_No_Button_completes:
  "length (plan_rows_set ss) \<le> 1 \<Longrightarrow> length (integrity_rows_set ss) \<le> 1 \<Longrightarrow>
     script No_Button ss = Inr (run_without_conflict ss)"
  by (simp add: script_No_Button script_run_eq)

lemma script_No_Button_isl:
  "isl (script No_Button ss) \<longleftrightarrow>
     length (plan_rows_set ss) > 1 \<or> length (integrity_rows_set ss) > 1"
  by (simp add: script_No_Button script_run_eq)

lemma script_run_other_key:
  assumes "k \<notin> set plan_keys" "k \<notin> set integrity_keys"
  shows "isl (script_run (ss(k \<mapsto> b))) = isl (script_run ss)"
    "script_run ss = Inr r \<Longrightarrow>
       \<exists>r'. script_run (ss(k \<mapsto> b)) = Inr r'
           \<and> plan_selected r' = plan_selected r \<and> plan_warning r' = plan_warning r
           \<and> recommended_area r' = recommended_area r \<and> selected_area r' = selected_area r
           \<and> integrity_warning r' = integrity_warning r \<and> p2_integrity r' = p2_integrity r"
proof -
  have p: "plan_rows_set (ss(k \<mapsto> b)) = plan_rows_set ss"
    and i: "integrity_rows_set (ss(k \<mapsto> b)) = integrity_rows_set ss"
    using assms by (simp_all add: rows_set_other_key)
  have f: "first_plan_row_set (ss(k \<mapsto> b)) = first_plan_row_set ss"
    using p by (rule first_plan_row_set_cong)
  have l: "last_area_set (ss(k \<mapsto> b)) = last_area_set ss"
    using i by (rule last_area_set_cong)
  show "isl (script_run (ss(k \<mapsto> b))) = isl (script_run ss)"
    by (simp add: script_run_eq p i)
  show "script_run ss = Inr r \<Longrightarrow>
       \<exists>r'. script_run (ss(k \<mapsto> b)) = Inr r'
           \<and> plan_selected r' = plan_selected r \<and> plan_warning r' = plan_warning r
           \<and> recommended_area r' = recommended_area r \<and> selected_area r' = selected_area r
           \<and> integrity_warning r' = integrity_warning r \<and> p2_integrity r' = p2_integrity r"
    by (auto simp: script_run_eq p i f l run_without_conflict_fields split: if_splits)
qed

section \<open>Facts about conflicts\<close>

text \<open>
  With more than one row set in a table, the reset after the table raises and writes
  nothing: the run stops there and the session state keeps all the rows set. In section
  2.3 \<open>selected_area\<close> has been assigned inside the loop, at every set row, so that it holds
  the last of them when the run stops.
\<close>

lemma plan_conflict_stops_run:
  "length (plan_rows_set ss) > 1 \<Longrightarrow> script pressed ss = Inl (Stop_1_7 StreamlitAPIException ss)"
  by (simp add: script_eq)

lemma integrity_conflict_stops_run:
  "length (plan_rows_set ss) \<le> 1 \<Longrightarrow> length (integrity_rows_set ss) > 1 \<Longrightarrow>
     script No_Button ss =
       Inl (Stop_2_3 StreamlitAPIException (first_plan_row_set ss) (last_area_set ss) ss)"
  by (simp add: script_No_Button script_run_eq)

lemma completed_run_single_selection:
  "script pressed ss = Inr r \<Longrightarrow>
     length (plan_rows_set (state_after r)) \<le> 1 \<and> length (integrity_rows_set (state_after r)) \<le> 1"
  using completed_run_facts(6,7) by blast

section \<open>Claims\<close>

text \<open>
  C10. The recommendation table is total over the plan table and valid for the integrity
  table: every \<open>Gap\<close> of \<open>PLAN_ROWS\<close> is a key of \<open>RECOMMENDED_INTEGRITY\<close> whose value is
  a non-empty \<open>Area\<close> of \<open>INTEGRITY_ROWS\<close>, every value of the table is such an
  \<open>Area\<close>, and the table has no other keys.
\<close>

theorem recommendation_table_total_and_valid:
  "(\<forall>row \<in> set PLAN_ROWS. \<exists>a. RECOMMENDED_INTEGRITY (Gap row) = Some a \<and> a \<noteq> []
       \<and> a \<in> set (map Area INTEGRITY_ROWS))
   \<and> ran RECOMMENDED_INTEGRITY \<subseteq> set (map Area INTEGRITY_ROWS)
   \<and> dom RECOMMENDED_INTEGRITY = set (map Gap PLAN_ROWS)"
proof (intro conjI ballI)
  fix row assume "row \<in> set PLAN_ROWS"
  then have "Gap row \<in> set (map Gap PLAN_ROWS)" by simp
  then show "\<exists>a. RECOMMENDED_INTEGRITY (Gap row) = Some a \<and> a \<noteq> [] \<and> a \<in> set (map Area INTEGRITY_ROWS)"
    by (rule recommended_for_gap)
next
  show "ran RECOMMENDED_INTEGRITY \<subseteq> set (map Area INTEGRITY_ROWS)"
    using recommended_value_valid by (auto simp: ran_def)
next
  show "dom RECOMMENDED_INTEGRITY = set (map Gap PLAN_ROWS)"
  proof (intro equalityI subsetI)
    fix g assume "g \<in> dom RECOMMENDED_INTEGRITY"
    then obtain a where "RECOMMENDED_INTEGRITY g = Some a" by auto
    then show "g \<in> set (map Gap PLAN_ROWS)" by (rule recommended_key_known)
  next
    fix g assume "g \<in> set (map Gap PLAN_ROWS)"
    from recommended_for_gap[OF this] show "g \<in> dom RECOMMENDED_INTEGRITY" by auto
  qed
qed

text \<open>The row \<open>No FHIR Connection\<close> and its recommendation.\<close>

theorem recommendation_table_total_and_valid_witness:
  "PLAN_ROWS ! 3 \<in> set PLAN_ROWS
   \<and> RECOMMENDED_INTEGRITY (Gap (PLAN_ROWS ! 3)) = Some ''Error Detection & Alerts''
   \<and> ''Error Detection & Alerts'' \<in> set (map Area INTEGRITY_ROWS)"
proof -
  have m: "PLAN_ROWS ! 3 \<in> set PLAN_ROWS" by (simp add: PLAN_ROWS_def)
  have v: "RECOMMENDED_INTEGRITY (Gap (PLAN_ROWS ! 3)) = Some ''Error Detection & Alerts''"
    by (simp add: PLAN_ROWS_def RECOMMENDED_INTEGRITY_def RECOMMENDED_INTEGRITY_items_def)
  from recommendation_table_total_and_valid m
  obtain a where "RECOMMENDED_INTEGRITY (Gap (PLAN_ROWS ! 3)) = Some a" "a \<in> set (map Area INTEGRITY_ROWS)"
    by blast
  with m v show ?thesis by simp
qed

text \<open>
  C3. Effective selection. In every run that reaches its end, whatever the session state
  and the button pressed: if a row of the integrity table is selected, \<open>p2_integrity\<close> is
  its \<open>Area\<close>, whatever the recommendation; if none is selected, \<open>p2_integrity\<close> is the
  recommendation, which is the entry of \<open>RECOMMENDED_INTEGRITY\<close> for the \<open>Gap\<close> of the
  selected plan row; with neither, it is the placeholder string that stands for the empty
  selection. A run without a pressed button reaches its end exactly when neither table
  has more than one row set; otherwise the reset raises before \<open>p2_integrity\<close> is assigned.
\<close>

theorem effective_selection:
  "(script pressed ss = Inr r \<longrightarrow>
      (\<forall>x. selected_area r = Some x \<longrightarrow> p2_integrity r = x)
      \<and> (selected_area r = None \<longrightarrow>
           (\<forall>y. recommended_area r = Some y \<longrightarrow> p2_integrity r = y)
           \<and> (recommended_area r = None \<longrightarrow> p2_integrity r = placeholder_select))
      \<and> recommended_area r =
           (case plan_selected r of None \<Rightarrow> None | Some row \<Rightarrow> RECOMMENDED_INTEGRITY (Gap row)))
   \<and> (isl (script No_Button ss) \<longleftrightarrow>
        length (plan_rows_set ss) > 1 \<or> length (integrity_rows_set ss) > 1)"
proof (intro conjI impI allI)
  fix x assume c: "script pressed ss = Inr r" and "selected_area r = Some x"
  moreover from this have "x \<noteq> []" using completed_run_facts(2) by blast
  ultimately show "p2_integrity r = x"
    by (simp add: completed_run_facts(5)[OF c] p2_integrity_of_def)
next
  fix y
  assume c: "script pressed ss = Inr r" and "selected_area r = None" "recommended_area r = Some y"
  moreover from this have "y \<noteq> []" using completed_run_facts(3) by blast
  ultimately show "p2_integrity r = y"
    by (simp add: completed_run_facts(5)[OF c] p2_integrity_of_def)
next
  assume c: "script pressed ss = Inr r" and "selected_area r = None" "recommended_area r = None"
  then show "p2_integrity r = placeholder_select"
    by (simp add: completed_run_facts(5)[OF c] p2_integrity_of_def)
next
  assume c: "script pressed ss = Inr r"
  show "recommended_area r =
        (case plan_selected r of None \<Rightarrow> None | Some row \<Rightarrow> RECOMMENDED_INTEGRITY (Gap row))"
    by (simp add: completed_run_facts(4)[OF c] recommended_area_of_def)
next
  show "isl (script No_Button ss) \<longleftrightarrow>
        length (plan_rows_set ss) > 1 \<or> length (integrity_rows_set ss) > 1"
    by (rule script_No_Button_isl)
qed

text \<open>
  With the plan row \<open>Data Silos\<close> and the integrity row \<open>Error Detection & Alerts\<close> set, the
  selected row wins over the recommendation \<open>Access Tracking (Audit Logs)\<close>; with the
  plan row alone, the recommendation is the effective selection.
\<close>

theorem effective_selection_witness:
  "(\<exists>r. script No_Button
          [plan_key 0 (PLAN_ROWS ! 0) \<mapsto> True, integrity_key 2 (INTEGRITY_ROWS ! 2) \<mapsto> True] = Inr r
        \<and> selected_area r = Some ''Error Detection & Alerts''
        \<and> recommended_area r = Some ''Access Tracking (Audit Logs)''
        \<and> p2_integrity r = ''Error Detection & Alerts'')
   \<and> (\<exists>r. script No_Button [plan_key 0 (PLAN_ROWS ! 0) \<mapsto> True] = Inr r
        \<and> selected_area r = None
        \<and> recommended_area r = Some ''Access Tracking (Audit Logs)''
        \<and> p2_integrity r = ''Access Tracking (Audit Logs)'')"
proof -
  let ?s1 = "[plan_key 0 (PLAN_ROWS ! 0) \<mapsto> True, integrity_key 2 (INTEGRITY_ROWS ! 2) \<mapsto> True]"
  let ?s2 = "[plan_key 0 (PLAN_ROWS ! 0) \<mapsto> True]"
  have "length (plan_rows_set ?s1) \<le> 1" "length (integrity_rows_set ?s1) \<le> 1" by code_simp+
  then have c1: "script No_Button ?s1 = Inr (run_without_conflict ?s1)"
    by (rule script_No_Button_completes)
  have "length (plan_rows_set ?s2) \<le> 1" "length (integrity_rows_set ?s2) \<le> 1" by code_simp+
  then have c2: "script No_Button ?s2 = Inr (run_without_conflict ?s2)"
    by (rule script_No_Button_completes)
  have a: "selected_area (run_without_conflict ?s1) = Some ''Error Detection & Alerts''"
    by code_simp
  have b: "recommended_area (run_without_conflict ?s1) = Some ''Access Tracking (Audit Logs)''"
    by code_simp
  have c: "selected_area (run_without_conflict ?s2) = None" by code_simp
  have d: "recommended_area (run_without_conflict ?s2) = Some ''Access Tracking (Audit Logs)''"
    by code_simp
  from effective_selection[of No_Button ?s1 "run_without_conflict ?s1"] c1 a
  have e: "p2_integrity (run_without_conflict ?s1) = ''Error Detection & Alerts''" by blast
  from effective_selection[of No_Button ?s2 "run_without_conflict ?s2"] c2 c d
  have f: "p2_integrity (run_without_conflict ?s2) = ''Access Tracking (Audit Logs)''" by blast
  from c1 a b e c2 c d f show ?thesis by blast
qed

text \<open>
  C4. Use recommended. From any session state in which the run reaches the buttons with
  a recommendation \<open>a\<close> (section 1.7 does not raise and the lookup for \<open>plan_selected\<close>
  gives \<open>a\<close>), pressing the button \<open>Use recommended\<close> gives a run that reaches its end and
  stores \<open>True\<close> under the key of the row whose \<open>Area\<close> is \<open>a\<close> and \<open>False\<close> under every
  other integrity key, whatever was set in the integrity table before; the run selects
  \<open>a\<close>, without a warning.
\<close>

theorem use_recommended_selects_exactly:
  assumes "plan_section ss = Inr ((warned, chosen), ss1)"
    and "recommended_area_of chosen = Some a"
  shows "\<exists>r. script Use_Recommended ss = Inr r
       \<and> (\<forall>(i, row) \<in> set (enumerate 0 INTEGRITY_ROWS).
              state_after r (integrity_key i row) = Some (Area row = a))
       \<and> map Area (integrity_rows_set (state_after r)) = [a]
       \<and> selected_area r = Some a
       \<and> \<not> integrity_warning r
       \<and> p2_integrity r = a"
proof -
  let ?S = "use_recommended_loop (Some a) (enumerate 0 INTEGRITY_ROWS) ss"
  have p: "length (plan_rows_set ss) \<le> 1" and c: "chosen = first_plan_row_set ss"
    using assms(1) by (simp_all add: plan_section_Inr)
  have r: "recommended_area_of (first_plan_row_set ss) = Some a" using assms(2) c by simp
  have a: "a \<noteq> []" using assms(2) recommended_area_of_valid by blast
  have e: "script Use_Recommended ss = Inr (run_without_conflict ?S)"
    using p r by (rule script_Use_Recommended(1))
  obtain x0 where rows: "integrity_rows_set ?S = [x0]" and x0: "Area x0 = a"
    using script_Use_Recommended(2)[OF p r] by blast
  have keys: "\<forall>(i, row) \<in> set (enumerate 0 INTEGRITY_ROWS).
            state_after (run_without_conflict ?S) (integrity_key i row) = Some (Area row = a)"
  proof (intro ballI, clarify)
    fix i row assume m: "(i, row) \<in> set (enumerate 0 INTEGRITY_ROWS)"
    have "?S (integrity_key i row) = Some (Some (Area row) = Some a)"
      using m by (rule use_recommended_at_key)
    then show "state_after (run_without_conflict ?S) (integrity_key i row) = Some (Area row = a)"
      by (simp add: run_without_conflict_fields)
  qed
  have after: "map Area (integrity_rows_set (state_after (run_without_conflict ?S))) = [a]"
    by (simp add: run_without_conflict_fields rows x0)
  have sel: "selected_area (run_without_conflict ?S) = Some a"
    by (simp add: run_without_conflict_fields last_area_set_def rows x0)
  have warn: "\<not> integrity_warning (run_without_conflict ?S)"
    by (simp add: run_without_conflict_fields)
  have p2: "p2_integrity (run_without_conflict ?S) = a"
    using a by (simp add: run_without_conflict_fields last_area_set_def rows x0 p2_integrity_of_def)
  show ?thesis
  proof (intro exI conjI)
    show "script Use_Recommended ss = Inr (run_without_conflict ?S)" by (rule e)
    show "\<forall>(i, row) \<in> set (enumerate 0 INTEGRITY_ROWS).
            state_after (run_without_conflict ?S) (integrity_key i row) = Some (Area row = a)"
      by (rule keys)
    show "map Area (integrity_rows_set (state_after (run_without_conflict ?S))) = [a]"
      by (rule after)
    show "selected_area (run_without_conflict ?S) = Some a" by (rule sel)
    show "\<not> integrity_warning (run_without_conflict ?S)" by (rule warn)
    show "p2_integrity (run_without_conflict ?S) = a" by (rule p2)
  qed
qed

text \<open>
  With the plan row \<open>No FHIR Connection\<close> and the integrity row \<open>Data Accuracy (Integrity)\<close>
  set, the recommendation is \<open>Error Detection & Alerts\<close>; the button selects it.
\<close>

theorem use_recommended_selects_exactly_witness:
  "plan_section [plan_key 3 (PLAN_ROWS ! 3) \<mapsto> True, integrity_key 0 (INTEGRITY_ROWS ! 0) \<mapsto> True]
     = Inr ((False, Some (PLAN_ROWS ! 3)),
            [plan_key 3 (PLAN_ROWS ! 3) \<mapsto> True, integrity_key 0 (INTEGRITY_ROWS ! 0) \<mapsto> True])
   \<and> recommended_area_of (Some (PLAN_ROWS ! 3)) = Some ''Error Detection & Alerts''
   \<and> (\<exists>r. script Use_Recommended
          [plan_key 3 (PLAN_ROWS ! 3) \<mapsto> True, integrity_key 0 (INTEGRITY_ROWS ! 0) \<mapsto> True] = Inr r
        \<and> selected_area r = Some ''Error Detection & Alerts''
        \<and> map Area (integrity_rows_set (state_after r)) = [''Error Detection & Alerts''])"
proof -
  let ?s = "[plan_key 3 (PLAN_ROWS ! 3) \<mapsto> True, integrity_key 0 (INTEGRITY_ROWS ! 0) \<mapsto> True]"
  have l: "length (plan_rows_set ?s) \<le> 1" by code_simp
  have f: "first_plan_row_set ?s = Some (PLAN_ROWS ! 3)" by code_simp
  have h: "plan_section ?s = Inr ((False, Some (PLAN_ROWS ! 3)), ?s)"
    using l f by (simp add: plan_section_eq)
  have g: "recommended_area_of (Some (PLAN_ROWS ! 3)) = Some ''Error Detection & Alerts''"
    by code_simp
  from use_recommended_selects_exactly[OF h g]
  obtain r where r: "script Use_Recommended ?s = Inr r"
      "selected_area r = Some ''Error Detection & Alerts''"
      "map Area (integrity_rows_set (state_after r)) = [''Error Detection & Alerts'']"
    by (elim exE conjE) (rule that; assumption)
  show ?thesis
  proof (intro conjI exI)
    show "plan_section ?s = Inr ((False, Some (PLAN_ROWS ! 3)), ?s)" by (rule h)
    show "recommended_area_of (Some (PLAN_ROWS ! 3)) = Some ''Error Detection & Alerts''"
      by (rule g)
    show "script Use_Recommended ?s = Inr r" by (rule r(1))
    show "selected_area r = Some ''Error Detection & Alerts''" by (rule r(2))
    show "map Area (integrity_rows_set (state_after r)) = [''Error Detection & Alerts'']"
      by (rule r(3))
  qed
qed

text \<open>
  C5. Clear selection. From any session state in which the run reaches the buttons
  (section 1.7 does not raise), pressing the button \<open>Clear selection\<close> gives a run that
  reaches its end and stores \<open>False\<close> under every integrity key; no row is selected, and
  the effective selection is the recommendation from the plan table when there is one
  and the placeholder string otherwise, which the export prints as an em-dash.
\<close>

theorem clear_selection_empties:
  assumes "plan_section ss = Inr ((warned, chosen), ss1)"
  shows "\<exists>r. script Clear_Selection ss = Inr r
       \<and> (\<forall>k \<in> set integrity_keys. state_after r k = Some False)
       \<and> integrity_rows_set (state_after r) = []
       \<and> selected_area r = None
       \<and> \<not> integrity_warning r
       \<and> plan_selected r = chosen
       \<and> recommended_area r = recommended_area_of chosen
       \<and> p2_integrity r =
           (case recommended_area_of chosen of None \<Rightarrow> placeholder_select | Some y \<Rightarrow> y)
       \<and> cell_integrity (build_pdf_cells (make_selections r include_all)) =
           (case recommended_area_of chosen of None \<Rightarrow> em_dash | Some y \<Rightarrow> y)"
proof -
  let ?S = "clear_selection_loop (enumerate 0 INTEGRITY_ROWS) ss"
  let ?r = "run_without_conflict ?S"
  have p: "length (plan_rows_set ss) \<le> 1" and c: "chosen = first_plan_row_set ss"
    using assms by (simp_all add: plan_section_Inr)
  have e: "script Clear_Selection ss = Inr ?r"
    using p by (rule script_Clear_Selection)
  have rows: "integrity_rows_set ?S = []" by (rule integrity_rows_set_clear)
  have keys: "\<forall>k \<in> set integrity_keys. state_after ?r k = Some False"
    by (simp add: run_without_conflict_fields clear_selection_loop_apply integrity_keys_def)
  have after: "integrity_rows_set (state_after ?r) = []"
    by (simp add: run_without_conflict_fields rows)
  have sel: "selected_area ?r = None"
    by (simp add: run_without_conflict_fields last_area_set_def rows)
  have warn: "\<not> integrity_warning ?r" by (simp add: run_without_conflict_fields)
  have f: "first_plan_row_set ?S = chosen"
    unfolding c by (rule first_plan_row_set_cong) (rule plan_rows_set_clear)
  have ch: "plan_selected ?r = chosen" by (simp add: run_without_conflict_fields f)
  have rec: "recommended_area ?r = recommended_area_of chosen"
    by (simp add: run_without_conflict_fields f)
  have p2: "p2_integrity ?r =
       (case recommended_area_of chosen of None \<Rightarrow> placeholder_select | Some y \<Rightarrow> y)"
  proof (cases "recommended_area_of chosen")
    case None
    then show ?thesis
      by (simp add: run_without_conflict_fields f last_area_set_def rows p2_integrity_of_def)
  next
    case (Some y)
    then have "y \<noteq> []" using recommended_area_of_valid by blast
    then show ?thesis using Some
      by (simp add: run_without_conflict_fields f last_area_set_def rows p2_integrity_of_def)
  qed
  have cell: "cell_integrity (build_pdf_cells (make_selections ?r include_all)) =
       (case recommended_area_of chosen of None \<Rightarrow> em_dash | Some y \<Rightarrow> y)"
  proof (cases "recommended_area_of chosen")
    case None
    then show ?thesis using p2 by (simp add: build_pdf_cells_fields(1) sel_or_dash_placeholder)
  next
    case (Some y)
    then have "y \<in> set (map Area INTEGRITY_ROWS)" using recommended_area_of_valid by blast
    then show ?thesis using Some p2 by (simp add: build_pdf_cells_fields(1) sel_or_dash_area)
  qed
  show ?thesis
  proof (intro exI conjI)
    show "script Clear_Selection ss = Inr ?r" by (rule e)
    show "\<forall>k \<in> set integrity_keys. state_after ?r k = Some False" by (rule keys)
    show "integrity_rows_set (state_after ?r) = []" by (rule after)
    show "selected_area ?r = None" by (rule sel)
    show "\<not> integrity_warning ?r" by (rule warn)
    show "plan_selected ?r = chosen" by (rule ch)
    show "recommended_area ?r = recommended_area_of chosen" by (rule rec)
    show "p2_integrity ?r =
       (case recommended_area_of chosen of None \<Rightarrow> placeholder_select | Some y \<Rightarrow> y)"
      by (rule p2)
    show "cell_integrity (build_pdf_cells (make_selections ?r include_all)) =
       (case recommended_area_of chosen of None \<Rightarrow> em_dash | Some y \<Rightarrow> y)"
      by (rule cell)
  qed
qed

text \<open>
  Clearing with the integrity row \<open>Error Detection & Alerts\<close> set: without a plan row the
  effective selection is the placeholder, with the plan row \<open>Data Silos\<close> it is the
  recommendation \<open>Access Tracking (Audit Logs)\<close>.
\<close>

theorem clear_selection_empties_witness:
  "plan_section [integrity_key 2 (INTEGRITY_ROWS ! 2) \<mapsto> True]
     = Inr ((False, None), [integrity_key 2 (INTEGRITY_ROWS ! 2) \<mapsto> True])
   \<and> (\<exists>r. script Clear_Selection [integrity_key 2 (INTEGRITY_ROWS ! 2) \<mapsto> True] = Inr r
         \<and> integrity_rows_set (state_after r) = []
         \<and> selected_area r = None
         \<and> p2_integrity r = placeholder_select)
   \<and> plan_section
        [plan_key 0 (PLAN_ROWS ! 0) \<mapsto> True, integrity_key 2 (INTEGRITY_ROWS ! 2) \<mapsto> True]
     = Inr ((False, Some (PLAN_ROWS ! 0)),
        [plan_key 0 (PLAN_ROWS ! 0) \<mapsto> True, integrity_key 2 (INTEGRITY_ROWS ! 2) \<mapsto> True])
   \<and> (\<exists>r. script Clear_Selection
          [plan_key 0 (PLAN_ROWS ! 0) \<mapsto> True, integrity_key 2 (INTEGRITY_ROWS ! 2) \<mapsto> True] = Inr r
         \<and> selected_area r = None
         \<and> p2_integrity r = ''Access Tracking (Audit Logs)'')"
proof -
  let ?s1 = "[integrity_key 2 (INTEGRITY_ROWS ! 2) \<mapsto> True]"
  let ?s2 = "[plan_key 0 (PLAN_ROWS ! 0) \<mapsto> True, integrity_key 2 (INTEGRITY_ROWS ! 2) \<mapsto> True]"
  have "length (plan_rows_set ?s1) \<le> 1" "first_plan_row_set ?s1 = None" by code_simp+
  then have h1: "plan_section ?s1 = Inr ((False, None), ?s1)" by (simp add: plan_section_eq)
  have "length (plan_rows_set ?s2) \<le> 1" "first_plan_row_set ?s2 = Some (PLAN_ROWS ! 0)"
    by code_simp+
  then have h2: "plan_section ?s2 = Inr ((False, Some (PLAN_ROWS ! 0)), ?s2)"
    by (simp add: plan_section_eq)
  have n: "recommended_area_of None = None" by code_simp
  have g: "recommended_area_of (Some (PLAN_ROWS ! 0)) = Some ''Access Tracking (Audit Logs)''"
    by code_simp
  from clear_selection_empties[OF h1, of False]
  obtain r1 where r1: "script Clear_Selection ?s1 = Inr r1"
      "integrity_rows_set (state_after r1) = []" "selected_area r1 = None"
      "p2_integrity r1 = (case recommended_area_of None of None \<Rightarrow> placeholder_select | Some y \<Rightarrow> y)"
    by (elim exE conjE) (rule that; assumption)
  from clear_selection_empties[OF h2, of False]
  obtain r2 where r2: "script Clear_Selection ?s2 = Inr r2" "selected_area r2 = None"
      "p2_integrity r2 = (case recommended_area_of (Some (PLAN_ROWS ! 0)) of
                            None \<Rightarrow> placeholder_select | Some y \<Rightarrow> y)"
    by (elim exE conjE) (rule that; assumption)
  have p1: "p2_integrity r1 = placeholder_select" using r1(4) n by simp
  have p2: "p2_integrity r2 = ''Access Tracking (Audit Logs)''" using r2(3) g by simp
  show ?thesis
  proof (intro conjI)
    show "plan_section ?s1 = Inr ((False, None), ?s1)" by (rule h1)
    show "\<exists>r. script Clear_Selection ?s1 = Inr r \<and> integrity_rows_set (state_after r) = []
         \<and> selected_area r = None \<and> p2_integrity r = placeholder_select"
      using r1(1-3) p1 by blast
    show "plan_section ?s2 = Inr ((False, Some (PLAN_ROWS ! 0)), ?s2)" by (rule h2)
    show "\<exists>r. script Clear_Selection ?s2 = Inr r \<and> selected_area r = None
         \<and> p2_integrity r = ''Access Tracking (Audit Logs)''"
      using r2(1,2) p2 by blast
  qed
qed

text \<open>
  C6. The recommendation is a lookup without effect on the session state. Without a
  selected plan row it is \<open>None\<close>; for a row whose \<open>Gap\<close> is not a key of
  \<open>RECOMMENDED_INTEGRITY\<close> it is \<open>None\<close>; otherwise it is the value stored for the \<open>Gap\<close>,
  and every value it returns is the \<open>Area\<close> of a row of \<open>INTEGRITY_ROWS\<close>. A run that
  reaches its end shows the lookup for its \<open>plan_selected\<close>, and the session state that
  section 2.3 leaves is the same whatever row the lookup was made for.
\<close>

theorem recommended_selection_lookup:
  "recommended_area_of None = None
   \<and> (\<forall>row. RECOMMENDED_INTEGRITY (Gap row) = None \<longrightarrow> recommended_area_of (Some row) = None)
   \<and> (\<forall>row a. RECOMMENDED_INTEGRITY (Gap row) = Some a \<longrightarrow>
         recommended_area_of (Some row) = Some a \<and> a \<in> set (map Area INTEGRITY_ROWS))
   \<and> (\<forall>a. recommended_area_of chosen = Some a \<longrightarrow>
         a \<in> set (map Area INTEGRITY_ROWS)
         \<and> (\<exists>row. chosen = Some row \<and> RECOMMENDED_INTEGRITY (Gap row) = Some a))
   \<and> (script pressed ss = Inr r \<longrightarrow> recommended_area r = recommended_area_of (plan_selected r))
   \<and> integrity_state (integrity_section warned chosen ss)
       = integrity_state (integrity_section warned None ss)"
proof (intro conjI allI impI)
  show "recommended_area_of None = None" by (simp add: recommended_area_of_def)
next
  fix row :: plan_row assume "RECOMMENDED_INTEGRITY (Gap row) = None"
  then show "recommended_area_of (Some row) = None" by (simp add: recommended_area_of_def)
next
  fix row :: plan_row and a assume "RECOMMENDED_INTEGRITY (Gap row) = Some a"
  then show "recommended_area_of (Some row) = Some a" by (simp add: recommended_area_of_def)
next
  fix row :: plan_row and a assume "RECOMMENDED_INTEGRITY (Gap row) = Some a"
  then show "a \<in> set (map Area INTEGRITY_ROWS)" using recommended_value_valid by blast
next
  fix a assume h: "recommended_area_of chosen = Some a"
  then obtain row where r: "chosen = Some row" "RECOMMENDED_INTEGRITY (Gap row) = Some a"
    by (auto simp: recommended_area_of_def split: option.splits)
  show "a \<in> set (map Area INTEGRITY_ROWS)" using r(2) recommended_value_valid by blast
  show "\<exists>row. chosen = Some row \<and> RECOMMENDED_INTEGRITY (Gap row) = Some a" using r by blast
next
  assume "script pressed ss = Inr r"
  then show "recommended_area r = recommended_area_of (plan_selected r)"
    by (rule completed_run_facts(4))
next
  show "integrity_state (integrity_section warned chosen ss)
       = integrity_state (integrity_section warned None ss)"
    by (simp only: integrity_state_integrity_section)
qed

text \<open>
  The row \<open>Inconsistent Patient IDs\<close> maps to \<open>Patient Identity Management (MPI)\<close>; the
  same row with a \<open>Gap\<close> the table does not know gets no recommendation; a run with that
  row set shows the recommendation.
\<close>

theorem recommended_selection_lookup_witness:
  "RECOMMENDED_INTEGRITY (Gap (PLAN_ROWS ! 1)) = Some ''Patient Identity Management (MPI)''
   \<and> recommended_area_of (Some (PLAN_ROWS ! 1)) = Some ''Patient Identity Management (MPI)''
   \<and> ''Patient Identity Management (MPI)'' \<in> set (map Area INTEGRITY_ROWS)
   \<and> RECOMMENDED_INTEGRITY (Gap ((PLAN_ROWS ! 1)\<lparr>Gap := ''Unknown gap''\<rparr>)) = None
   \<and> recommended_area_of (Some ((PLAN_ROWS ! 1)\<lparr>Gap := ''Unknown gap''\<rparr>)) = None
   \<and> (\<exists>r. script No_Button [plan_key 1 (PLAN_ROWS ! 1) \<mapsto> True] = Inr r
         \<and> plan_selected r = Some (PLAN_ROWS ! 1)
         \<and> recommended_area r = Some ''Patient Identity Management (MPI)'')"
proof -
  let ?s = "[plan_key 1 (PLAN_ROWS ! 1) \<mapsto> True]"
  have a: "RECOMMENDED_INTEGRITY (Gap (PLAN_ROWS ! 1)) = Some ''Patient Identity Management (MPI)''"
    by (simp add: PLAN_ROWS_def RECOMMENDED_INTEGRITY_def RECOMMENDED_INTEGRITY_items_def)
  have b: "RECOMMENDED_INTEGRITY (Gap ((PLAN_ROWS ! 1)\<lparr>Gap := ''Unknown gap''\<rparr>)) = None"
    by (simp add: RECOMMENDED_INTEGRITY_def RECOMMENDED_INTEGRITY_items_def)
  have "length (plan_rows_set ?s) \<le> 1" "length (integrity_rows_set ?s) \<le> 1" by code_simp+
  then have c: "script No_Button ?s = Inr (run_without_conflict ?s)"
    by (rule script_No_Button_completes)
  have d: "plan_selected (run_without_conflict ?s) = Some (PLAN_ROWS ! 1)" by code_simp
  note t = recommended_selection_lookup[of None No_Button ?s "run_without_conflict ?s" False]
  have 1: "recommended_area_of (Some (PLAN_ROWS ! 1)) = Some ''Patient Identity Management (MPI)''"
    and 2: "''Patient Identity Management (MPI)'' \<in> set (map Area INTEGRITY_ROWS)"
    using t a by blast+
  have 3: "recommended_area_of (Some ((PLAN_ROWS ! 1)\<lparr>Gap := ''Unknown gap''\<rparr>)) = None"
    using t b by blast
  have 4: "recommended_area (run_without_conflict ?s) = Some ''Patient Identity Management (MPI)''"
    using t c d 1 by simp
  show ?thesis using a b c d 1 2 3 4 by blast
qed

text \<open>
  C7. Identifiers outside the fixed lists have no effect, and nothing fails on them.
  A click stored under a key that belongs to neither checkbox table changes nothing: the
  run after it reaches its end exactly when the run without it does, computes the same,
  and leaves the same rows set in both tables. A \<open>Gap\<close> that is not a key of
  \<open>RECOMMENDED_INTEGRITY\<close> gets the recommendation \<open>None\<close>, with which the button
  \<open>Use recommended\<close> is disabled and a press is the run without it.
  \<open>reset_other_checkboxes\<close> on keys the session state does not hold raises nothing and
  returns the state unchanged.
\<close>

theorem unknown_identifier_no_effect:
  "(k \<notin> set plan_keys \<and> k \<notin> set integrity_keys \<longrightarrow>
      isl (interact (Toggle k) ss) = isl (script No_Button ss)
      \<and> (\<forall>r. script No_Button ss = Inr r \<longrightarrow>
            (\<exists>r'. interact (Toggle k) ss = Inr r'
               \<and> plan_selected r' = plan_selected r
               \<and> plan_warning r' = plan_warning r
               \<and> recommended_area r' = recommended_area r
               \<and> selected_area r' = selected_area r
               \<and> integrity_warning r' = integrity_warning r
               \<and> p2_integrity r' = p2_integrity r))
      \<and> plan_rows_set (final_state (interact (Toggle k) ss))
          = plan_rows_set (final_state (script No_Button ss))
      \<and> integrity_rows_set (final_state (interact (Toggle k) ss))
          = integrity_rows_set (final_state (script No_Button ss)))
   \<and> (g \<notin> set (map Gap PLAN_ROWS) \<longrightarrow>
        RECOMMENDED_INTEGRITY g = None \<and> recommended_area_of (Some (row\<lparr>Gap := g\<rparr>)) = None)
   \<and> (plan_section ss = Inr ((warned, chosen), ss1) \<and> recommended_area_of chosen = None \<longrightarrow>
        script Use_Recommended ss = script No_Button ss)
   \<and> ((\<forall>k' \<in> set ks. ss k' = None) \<longrightarrow>
        reset_other_checkboxes widgets ks keep_key ss = (None, ss))"
proof (intro conjI impI allI)
  assume k: "k \<notin> set plan_keys \<and> k \<notin> set integrity_keys"
  let ?s = "ss(k \<mapsto> \<not> state_get ss k)"
  have e: "interact (Toggle k) ss = script_run ?s" "script No_Button ss = script_run ss"
    by (simp_all add: script_No_Button)
  show "isl (interact (Toggle k) ss) = isl (script No_Button ss)"
    unfolding e using k by (simp add: script_run_other_key(1))
  show "plan_rows_set (final_state (interact (Toggle k) ss))
          = plan_rows_set (final_state (script No_Button ss))"
    unfolding e using k by (simp add: final_state_script_run rows_set_other_key)
  show "integrity_rows_set (final_state (interact (Toggle k) ss))
          = integrity_rows_set (final_state (script No_Button ss))"
    unfolding e using k by (simp add: final_state_script_run rows_set_other_key)
next
  fix r assume k: "k \<notin> set plan_keys \<and> k \<notin> set integrity_keys"
    and c: "script No_Button ss = Inr r"
  have e: "interact (Toggle k) ss = script_run (ss(k \<mapsto> \<not> state_get ss k))"
    by (simp add: script_No_Button)
  have c': "script_run ss = Inr r" using c by (simp add: script_No_Button)
  show "\<exists>r'. interact (Toggle k) ss = Inr r'
               \<and> plan_selected r' = plan_selected r
               \<and> plan_warning r' = plan_warning r
               \<and> recommended_area r' = recommended_area r
               \<and> selected_area r' = selected_area r
               \<and> integrity_warning r' = integrity_warning r
               \<and> p2_integrity r' = p2_integrity r"
    unfolding e using script_run_other_key(2)[OF _ _ c', of k] k by blast
next
  assume g: "g \<notin> set (map Gap PLAN_ROWS)"
  then show "RECOMMENDED_INTEGRITY g = None" by (rule recommended_unknown_gap)
  then show "recommended_area_of (Some (row\<lparr>Gap := g\<rparr>)) = None"
    by (simp add: recommended_area_of_def)
next
  assume "plan_section ss = Inr ((warned, chosen), ss1) \<and> recommended_area_of chosen = None"
  then have "recommended_area_of (first_plan_row_set ss) = None"
    by (auto simp: plan_section_Inr)
  then show "script Use_Recommended ss = script No_Button ss"
    by (rule script_Use_Recommended_disabled)
next
  assume "\<forall>k' \<in> set ks. ss k' = None"
  then show "reset_other_checkboxes widgets ks keep_key ss = (None, ss)"
    by (rule reset_other_checkboxes_unknown)
qed

text \<open>
  With the integrity row \<open>Access Tracking (Audit Logs)\<close> set and no plan row, a click
  under the unknown key \<open>nonexistent-id\<close> leaves the selection, the unknown gap
  \<open>Unknown gap\<close> gets no recommendation, the disabled button changes nothing, and
  resetting the unknown key leaves the state.
\<close>

theorem unknown_identifier_no_effect_witness:
  "''nonexistent-id'' \<notin> set plan_keys \<and> ''nonexistent-id'' \<notin> set integrity_keys
   \<and> (\<exists>r'. interact (Toggle ''nonexistent-id'')
              [integrity_key 1 (INTEGRITY_ROWS ! 1) \<mapsto> True] = Inr r'
         \<and> selected_area r' = Some ''Access Tracking (Audit Logs)'')
   \<and> ''Unknown gap'' \<notin> set (map Gap PLAN_ROWS)
   \<and> recommended_area_of (Some ((PLAN_ROWS ! 0)\<lparr>Gap := ''Unknown gap''\<rparr>)) = None
   \<and> plan_section [integrity_key 1 (INTEGRITY_ROWS ! 1) \<mapsto> True]
       = Inr ((False, None), [integrity_key 1 (INTEGRITY_ROWS ! 1) \<mapsto> True])
   \<and> recommended_area_of None = None
   \<and> script Use_Recommended [integrity_key 1 (INTEGRITY_ROWS ! 1) \<mapsto> True]
       = script No_Button [integrity_key 1 (INTEGRITY_ROWS ! 1) \<mapsto> True]
   \<and> [integrity_key 1 (INTEGRITY_ROWS ! 1) \<mapsto> True] ''nonexistent-id'' = None
   \<and> reset_other_checkboxes plan_keys [''nonexistent-id''] ''other''
         [integrity_key 1 (INTEGRITY_ROWS ! 1) \<mapsto> True]
       = (None, [integrity_key 1 (INTEGRITY_ROWS ! 1) \<mapsto> True])"
proof -
  let ?s = "[integrity_key 1 (INTEGRITY_ROWS ! 1) \<mapsto> True]"
  note t = unknown_identifier_no_effect[where k = "''nonexistent-id''" and ss = ?s
      and g = "''Unknown gap''" and row = "PLAN_ROWS ! 0" and warned = False and chosen = None
      and ?ss1.0 = ?s and ks = "[''nonexistent-id'']" and widgets = plan_keys
      and keep_key = "''other''"]
  have k: "''nonexistent-id'' \<notin> set plan_keys \<and> ''nonexistent-id'' \<notin> set integrity_keys"
    by (simp add: plan_keys_eval integrity_keys_eval)
  have "length (plan_rows_set ?s) \<le> 1" "length (integrity_rows_set ?s) \<le> 1"
    "first_plan_row_set ?s = None"
    by code_simp+
  then have c: "script No_Button ?s = Inr (run_without_conflict ?s)"
    and h: "plan_section ?s = Inr ((False, None), ?s)"
    by (simp_all add: script_No_Button_completes plan_section_eq)
  have s: "selected_area (run_without_conflict ?s) = Some ''Access Tracking (Audit Logs)''"
    by code_simp
  have g: "''Unknown gap'' \<notin> set (map Gap PLAN_ROWS)"
    by (simp add: gaps_eval)
  have n: "recommended_area_of None = None" by code_simp
  have u: "\<forall>k' \<in> set [''nonexistent-id'']. ?s k' = None" by code_simp
  have u': "?s ''nonexistent-id'' = None" using u by simp
  from t k c obtain r' where r': "interact (Toggle ''nonexistent-id'') ?s = Inr r'"
      "selected_area r' = selected_area (run_without_conflict ?s)"
    by blast
  have 1: "\<exists>r'. interact (Toggle ''nonexistent-id'') ?s = Inr r'
         \<and> selected_area r' = Some ''Access Tracking (Audit Logs)''"
    using r' s by auto
  have 2: "recommended_area_of (Some ((PLAN_ROWS ! 0)\<lparr>Gap := ''Unknown gap''\<rparr>)) = None"
    using t g by blast
  have 3: "script Use_Recommended ?s = script No_Button ?s"
    using t h n by blast
  have 4: "reset_other_checkboxes plan_keys [''nonexistent-id''] ''other'' ?s = (None, ?s)"
    using t u by blast
  show ?thesis using k 1 g 2 h n 3 u' 4 by blast
qed

text \<open>
  C8. Export. The cells \<open>build_pdf\<close> prints for the selections of a run that reaches its
  end: the integrity cell is the selected \<open>Area\<close>, else the recommendation, else an
  em-dash; the four plan cells are the fields of \<open>plan_selected\<close>, unchanged, or four
  em-dashes without a selection. \<open>sel_or_dash\<close> is total: \<open>None\<close>, the empty string and
  the two placeholder strings give an em-dash, every other string is returned unchanged.
\<close>

theorem export_placeholder_for_empty:
  "(script pressed ss = Inr r \<longrightarrow>
      cell_integrity (build_pdf_cells (make_selections r include_all)) =
        (case selected_area r of
           Some x \<Rightarrow> x
         | None \<Rightarrow> (case recommended_area r of Some y \<Rightarrow> y | None \<Rightarrow> em_dash))
      \<and> (plan_selected r = None \<longrightarrow>
           cell_gap (build_pdf_cells (make_selections r include_all)) = em_dash
           \<and> cell_iface (build_pdf_cells (make_selections r include_all)) = em_dash
           \<and> cell_fix (build_pdf_cells (make_selections r include_all)) = em_dash
           \<and> cell_ref (build_pdf_cells (make_selections r include_all)) = em_dash)
      \<and> (\<forall>row. plan_selected r = Some row \<longrightarrow>
           cell_gap (build_pdf_cells (make_selections r include_all)) = Gap row
           \<and> cell_iface (build_pdf_cells (make_selections r include_all))
               = Suggested_Interface_Type row
           \<and> cell_fix (build_pdf_cells (make_selections r include_all)) = Suggested_Fix row
           \<and> cell_ref (build_pdf_cells (make_selections r include_all)) = Reference row))
   \<and> sel_or_dash None = em_dash
   \<and> sel_or_dash (Some []) = em_dash
   \<and> sel_or_dash (Some placeholder_select) = em_dash
   \<and> sel_or_dash (Some placeholder_choose) = em_dash
   \<and> (\<forall>v. v \<noteq> [] \<and> v \<noteq> placeholder_select \<and> v \<noteq> placeholder_choose \<longrightarrow>
         sel_or_dash (Some v) = v)"
proof -
  have run: "script pressed ss = Inr r \<longrightarrow>
      cell_integrity (build_pdf_cells (make_selections r include_all)) =
        (case selected_area r of
           Some x \<Rightarrow> x
         | None \<Rightarrow> (case recommended_area r of Some y \<Rightarrow> y | None \<Rightarrow> em_dash))
      \<and> (plan_selected r = None \<longrightarrow>
           cell_gap (build_pdf_cells (make_selections r include_all)) = em_dash
           \<and> cell_iface (build_pdf_cells (make_selections r include_all)) = em_dash
           \<and> cell_fix (build_pdf_cells (make_selections r include_all)) = em_dash
           \<and> cell_ref (build_pdf_cells (make_selections r include_all)) = em_dash)
      \<and> (\<forall>row. plan_selected r = Some row \<longrightarrow>
           cell_gap (build_pdf_cells (make_selections r include_all)) = Gap row
           \<and> cell_iface (build_pdf_cells (make_selections r include_all))
               = Suggested_Interface_Type row
           \<and> cell_fix (build_pdf_cells (make_selections r include_all)) = Suggested_Fix row
           \<and> cell_ref (build_pdf_cells (make_selections r include_all)) = Reference row)"
  proof
    assume c: "script pressed ss = Inr r"
    note p2 = completed_run_facts(5)[OF c]
    have integ: "cell_integrity (build_pdf_cells (make_selections r include_all)) =
       (case selected_area r of
          Some x \<Rightarrow> x
        | None \<Rightarrow> (case recommended_area r of Some y \<Rightarrow> y | None \<Rightarrow> em_dash))"
    proof (cases "selected_area r")
      case (Some x)
      then have v: "x \<in> set (map Area INTEGRITY_ROWS)" "x \<noteq> []"
        using completed_run_facts(2)[OF c] by blast+
      then have "p2_integrity r = x" using Some by (simp add: p2 p2_integrity_of_def)
      then show ?thesis using Some v(1) by (simp add: build_pdf_cells_fields(1) sel_or_dash_area)
    next
      case None
      show ?thesis
      proof (cases "recommended_area r")
        case (Some y)
        then have v: "y \<in> set (map Area INTEGRITY_ROWS)" "y \<noteq> []"
          using completed_run_facts(3)[OF c] by blast+
        then have "p2_integrity r = y" using None Some by (simp add: p2 p2_integrity_of_def)
        then show ?thesis
          using None Some v(1) by (simp add: build_pdf_cells_fields(1) sel_or_dash_area)
      next
        case n: None
        then have "p2_integrity r = placeholder_select"
          using None by (simp add: p2 p2_integrity_of_def)
        then show ?thesis
          using None n by (simp add: build_pdf_cells_fields(1) sel_or_dash_placeholder)
      qed
    qed
    have none: "plan_selected r = None \<longrightarrow>
           cell_gap (build_pdf_cells (make_selections r include_all)) = em_dash
           \<and> cell_iface (build_pdf_cells (make_selections r include_all)) = em_dash
           \<and> cell_fix (build_pdf_cells (make_selections r include_all)) = em_dash
           \<and> cell_ref (build_pdf_cells (make_selections r include_all)) = em_dash"
      by (simp add: build_pdf_cells_fields)
    have some: "\<forall>row. plan_selected r = Some row \<longrightarrow>
           cell_gap (build_pdf_cells (make_selections r include_all)) = Gap row
           \<and> cell_iface (build_pdf_cells (make_selections r include_all))
               = Suggested_Interface_Type row
           \<and> cell_fix (build_pdf_cells (make_selections r include_all)) = Suggested_Fix row
           \<and> cell_ref (build_pdf_cells (make_selections r include_all)) = Reference row"
    proof (intro allI impI)
      fix row assume h: "plan_selected r = Some row"
      then have "row \<in> set PLAN_ROWS" by (rule completed_run_facts(1)[OF c])
      then show "cell_gap (build_pdf_cells (make_selections r include_all)) = Gap row
           \<and> cell_iface (build_pdf_cells (make_selections r include_all))
               = Suggested_Interface_Type row
           \<and> cell_fix (build_pdf_cells (make_selections r include_all)) = Suggested_Fix row
           \<and> cell_ref (build_pdf_cells (make_selections r include_all)) = Reference row"
        using h by (simp add: build_pdf_cells_fields sel_or_dash_plan_row)
    qed
    show "cell_integrity (build_pdf_cells (make_selections r include_all)) =
        (case selected_area r of
           Some x \<Rightarrow> x
         | None \<Rightarrow> (case recommended_area r of Some y \<Rightarrow> y | None \<Rightarrow> em_dash))
      \<and> (plan_selected r = None \<longrightarrow>
           cell_gap (build_pdf_cells (make_selections r include_all)) = em_dash
           \<and> cell_iface (build_pdf_cells (make_selections r include_all)) = em_dash
           \<and> cell_fix (build_pdf_cells (make_selections r include_all)) = em_dash
           \<and> cell_ref (build_pdf_cells (make_selections r include_all)) = em_dash)
      \<and> (\<forall>row. plan_selected r = Some row \<longrightarrow>
           cell_gap (build_pdf_cells (make_selections r include_all)) = Gap row
           \<and> cell_iface (build_pdf_cells (make_selections r include_all))
               = Suggested_Interface_Type row
           \<and> cell_fix (build_pdf_cells (make_selections r include_all)) = Suggested_Fix row
           \<and> cell_ref (build_pdf_cells (make_selections r include_all)) = Reference row)"
      using integ none some by (intro conjI)
  qed
  have other: "\<forall>v. v \<noteq> [] \<and> v \<noteq> placeholder_select \<and> v \<noteq> placeholder_choose \<longrightarrow>
         sel_or_dash (Some v) = v"
    by (simp add: sel_or_dash_other)
  show ?thesis
    using run other sel_or_dash_placeholder(1,2,4,5) by (intro conjI)
qed

text \<open>
  A fresh session exports five em-dashes; with the plan row \<open>Missing Clinical Context\<close>
  set, the row's fields and its recommendation \<open>Data Accuracy (Integrity)\<close> are exported.
\<close>

theorem export_placeholder_for_empty_witness:
  "(\<exists>r. script No_Button Map.empty = Inr r
        \<and> plan_selected r = None
        \<and> build_pdf_cells (make_selections r False)
            = \<lparr> cell_gap = em_dash, cell_iface = em_dash, cell_fix = em_dash, cell_ref = em_dash,
                cell_integrity = em_dash \<rparr>)
   \<and> (\<exists>r. script No_Button [plan_key 2 (PLAN_ROWS ! 2) \<mapsto> True] = Inr r
        \<and> plan_selected r = Some (PLAN_ROWS ! 2)
        \<and> cell_gap (build_pdf_cells (make_selections r False)) = ''Missing Clinical Context''
        \<and> cell_integrity (build_pdf_cells (make_selections r False))
            = ''Data Accuracy (Integrity)'')"
proof -
  let ?s = "[plan_key 2 (PLAN_ROWS ! 2) \<mapsto> True]"
  let ?emp = "run_without_conflict Map.empty"
  let ?r = "run_without_conflict ?s"
  have c0: "script No_Button Map.empty = Inr ?emp"
    by (rule script_No_Button_completes) (simp_all add: rows_set_empty_state)
  have "length (plan_rows_set ?s) \<le> 1" "length (integrity_rows_set ?s) \<le> 1" by code_simp+
  then have c: "script No_Button ?s = Inr ?r" by (rule script_No_Button_completes)
  have a: "plan_selected ?emp = None" by code_simp
  have b: "selected_area ?emp = None" by code_simp
  have c': "recommended_area ?emp = None" by code_simp
  have d: "plan_selected ?r = Some (PLAN_ROWS ! 2)" by code_simp
  have e: "selected_area ?r = None" by code_simp
  have f: "recommended_area ?r = Some ''Data Accuracy (Integrity)''" by code_simp
  have g: "Gap (PLAN_ROWS ! 2) = ''Missing Clinical Context''" by (simp add: PLAN_ROWS_def)
  from export_placeholder_for_empty[of No_Button Map.empty ?emp False] c0 a b c'
  have 1: "build_pdf_cells (make_selections ?emp False)
       = \<lparr> cell_gap = em_dash, cell_iface = em_dash, cell_fix = em_dash, cell_ref = em_dash,
           cell_integrity = em_dash \<rparr>"
    by simp
  from export_placeholder_for_empty[of No_Button ?s ?r False] c d e f g
  have 2: "cell_gap (build_pdf_cells (make_selections ?r False)) = ''Missing Clinical Context''
     \<and> cell_integrity (build_pdf_cells (make_selections ?r False)) = ''Data Accuracy (Integrity)''"
    by simp
  show ?thesis using c0 a 1 c d 2 by blast
qed

text \<open>
  C9. Each table writes only its own keys. Section 1.7 leaves every key outside
  \<open>plan_keys\<close> as it was; section 2.3, its two buttons and \<open>reset_other_checkboxes\<close> leave
  every key outside the keys they are given; the two key sets are disjoint, so in a whole
  run, whether it reaches its end or not, the plan keys are as section 1.7 left them and
  keys of neither table are untouched. Section 1.7 reads only the plan keys; section 2.3
  reads only the integrity keys, and what it takes from the other table is
  \<open>plan_selected\<close>, for the recommendation lookup.
\<close>

theorem groups_write_only_own_keys:
  "(k \<notin> set plan_keys \<longrightarrow> section_state (plan_section ss) k = ss k)
   \<and> (k \<notin> set integrity_keys \<longrightarrow>
        integrity_state (integrity_section warned chosen ss) k = ss k
        \<and> use_recommended_loop rec (enumerate 0 INTEGRITY_ROWS) ss k = ss k
        \<and> clear_selection_loop (enumerate 0 INTEGRITY_ROWS) ss k = ss k)
   \<and> (k \<notin> set checked_keys \<longrightarrow>
        snd (reset_other_checkboxes widgets checked_keys keep_key ss) k = ss k)
   \<and> set plan_keys \<inter> set integrity_keys = {}
   \<and> (k \<in> set plan_keys \<longrightarrow>
        final_state (script pressed ss) k = section_state (plan_section ss) k)
   \<and> (k \<notin> set plan_keys \<and> k \<notin> set integrity_keys \<longrightarrow> final_state (script pressed ss) k = ss k)
   \<and> ((\<forall>k' \<in> set plan_keys. ss k' = ss' k') \<longrightarrow>
        map_sum fst fst (plan_section ss) = map_sum fst fst (plan_section ss'))
   \<and> ((\<forall>k' \<in> set integrity_keys. ss k' = ss' k') \<longrightarrow>
        (\<forall>e a s. integrity_section warned chosen ss = Inl (e, a, s) \<longrightarrow>
           (\<exists>s'. integrity_section warned' chosen' ss' = Inl (e, a, s')))
        \<and> (\<forall>r. integrity_section warned chosen ss = Inr r \<longrightarrow>
             (\<exists>r'. integrity_section warned' chosen' ss' = Inr r'
                \<and> selected_area r' = selected_area r
                \<and> integrity_warning r' = integrity_warning r)))
   \<and> (\<forall>r. integrity_section warned chosen ss = Inr r \<longrightarrow>
         recommended_area r = recommended_area_of chosen)"
proof (intro conjI impI allI)
  assume "k \<notin> set plan_keys"
  show "section_state (plan_section ss) k = ss k" by (simp add: section_state_plan_section)
next
  assume k: "k \<notin> set integrity_keys"
  show "integrity_state (integrity_section warned chosen ss) k = ss k"
    by (simp add: integrity_state_integrity_section)
  show "use_recommended_loop rec (enumerate 0 INTEGRITY_ROWS) ss k = ss k"
    using k by (rule use_recommended_frame)
  show "clear_selection_loop (enumerate 0 INTEGRITY_ROWS) ss k = ss k"
    using k by (rule clear_selection_frame)
next
  assume "k \<notin> set checked_keys"
  then show "snd (reset_other_checkboxes widgets checked_keys keep_key ss) k = ss k"
    by (rule reset_other_checkboxes_frame)
next
  show "set plan_keys \<inter> set integrity_keys = {}" by (rule keys_disjoint)
next
  assume "k \<in> set plan_keys"
  then have "k \<notin> set integrity_keys" by (rule plan_key_not_integrity)
  then show "final_state (script pressed ss) k = section_state (plan_section ss) k"
    by (simp add: final_state_script_frame section_state_plan_section)
next
  assume "k \<notin> set plan_keys \<and> k \<notin> set integrity_keys"
  then show "final_state (script pressed ss) k = ss k" by (simp add: final_state_script_frame)
next
  assume h: "\<forall>k' \<in> set plan_keys. ss k' = ss' k'"
  show "map_sum fst fst (plan_section ss) = map_sum fst fst (plan_section ss')"
    by (rule plan_section_cong) (simp add: h)
next
  fix e a s
  assume h: "\<forall>k' \<in> set integrity_keys. ss k' = ss' k'"
    and i: "integrity_section warned chosen ss = Inl (e, a, s)"
  show "\<exists>s'. integrity_section warned' chosen' ss' = Inl (e, a, s')"
    by (rule integrity_section_cong(1)[OF _ i]) (simp add: h)
next
  fix r
  assume h: "\<forall>k' \<in> set integrity_keys. ss k' = ss' k'"
    and i: "integrity_section warned chosen ss = Inr r"
  show "\<exists>r'. integrity_section warned' chosen' ss' = Inr r'
                \<and> selected_area r' = selected_area r
                \<and> integrity_warning r' = integrity_warning r"
    by (rule integrity_section_cong(2)[OF _ i]) (simp add: h)
next
  fix r assume "integrity_section warned chosen ss = Inr r"
  then show "recommended_area r = recommended_area_of chosen"
    by (auto simp: integrity_section_eq split: if_splits)
qed

text \<open>
  A conflict in the plan table (rows 0 and 1 set) with the integrity row 3 set: section
  1.7 leaves the integrity key as it was, and a press of \<open>Clear selection\<close> leaves the
  plan key of row 0 as section 1.7 left it.
\<close>

theorem groups_write_only_own_keys_witness:
  "integrity_key 3 (INTEGRITY_ROWS ! 3) \<notin> set plan_keys
   \<and> section_state (plan_section
         [plan_key 0 (PLAN_ROWS ! 0) \<mapsto> True, plan_key 1 (PLAN_ROWS ! 1) \<mapsto> True,
          integrity_key 3 (INTEGRITY_ROWS ! 3) \<mapsto> True]) (integrity_key 3 (INTEGRITY_ROWS ! 3))
       = Some True
   \<and> plan_key 0 (PLAN_ROWS ! 0) \<in> set plan_keys
   \<and> final_state (script Clear_Selection
         [plan_key 0 (PLAN_ROWS ! 0) \<mapsto> True, plan_key 1 (PLAN_ROWS ! 1) \<mapsto> True,
          integrity_key 3 (INTEGRITY_ROWS ! 3) \<mapsto> True]) (plan_key 0 (PLAN_ROWS ! 0))
       = Some True"
proof -
  let ?ss = "[plan_key 0 (PLAN_ROWS ! 0) \<mapsto> True, plan_key 1 (PLAN_ROWS ! 1) \<mapsto> True,
              integrity_key 3 (INTEGRITY_ROWS ! 3) \<mapsto> True]"
  have a: "integrity_key 3 (INTEGRITY_ROWS ! 3) \<notin> set plan_keys" by code_simp
  have b: "plan_key 0 (PLAN_ROWS ! 0) \<in> set plan_keys" by code_simp
  have d: "?ss (integrity_key 3 (INTEGRITY_ROWS ! 3)) = Some True" by simp
  have e: "section_state (plan_section ?ss) (plan_key 0 (PLAN_ROWS ! 0)) = Some True" by code_simp
  have "integrity_key 3 (INTEGRITY_ROWS ! 3) \<notin> set plan_keys \<longrightarrow>
          section_state (plan_section ?ss) (integrity_key 3 (INTEGRITY_ROWS ! 3))
            = ?ss (integrity_key 3 (INTEGRITY_ROWS ! 3))"
    using groups_write_only_own_keys[where k = "integrity_key 3 (INTEGRITY_ROWS ! 3)" and ss = ?ss
        and ss' = ?ss and warned = False and warned' = False and chosen = None and chosen' = None
        and rec = None and checked_keys = "[]" and keep_key = "[]" and pressed = No_Button
        and widgets = "[]"]
    by (rule conjunct1)
  from this a have "section_state (plan_section ?ss) (integrity_key 3 (INTEGRITY_ROWS ! 3))
            = ?ss (integrity_key 3 (INTEGRITY_ROWS ! 3))"
    by (rule mp)
  from this d
  have 1: "section_state (plan_section ?ss) (integrity_key 3 (INTEGRITY_ROWS ! 3)) = Some True"
    by (rule trans)
  have "plan_key 0 (PLAN_ROWS ! 0) \<in> set plan_keys \<longrightarrow>
          final_state (script Clear_Selection ?ss) (plan_key 0 (PLAN_ROWS ! 0))
            = section_state (plan_section ?ss) (plan_key 0 (PLAN_ROWS ! 0))"
    using groups_write_only_own_keys[where k = "plan_key 0 (PLAN_ROWS ! 0)" and ss = ?ss
        and ss' = ?ss and warned = False and warned' = False and chosen = None and chosen' = None
        and rec = None and checked_keys = "[]" and keep_key = "[]" and pressed = Clear_Selection
        and widgets = "[]"]
    by blast
  from this b have "final_state (script Clear_Selection ?ss) (plan_key 0 (PLAN_ROWS ! 0))
            = section_state (plan_section ?ss) (plan_key 0 (PLAN_ROWS ! 0))"
    by (rule mp)
  from this e
  have 2: "final_state (script Clear_Selection ?ss) (plan_key 0 (PLAN_ROWS ! 0)) = Some True"
    by (rule trans)
  from a b 1 2 show ?thesis by blast
qed

text \<open>
  C1. Conflict resolution. With the rows at positions 2 and 3 of the integrity table both
  set, the block after the table shows the warning and calls the reset, which raises
  \<open>StreamlitAPIException\<close> at the first key it has to reset: the run stops with
  \<open>selected_area\<close> the last set row, \<open>Patient Identity Management (MPI)\<close>, not the first,
  \<open>p2_integrity\<close> is not assigned, and both rows stay set. With the rows at positions 2
  and 3 of the plan table both set, the run stops in section 1.7 before \<open>plan_selected\<close>
  is assigned, and both rows stay set.
\<close>

theorem integrity_conflict_resolution:
  "map Area (integrity_rows_set
      [integrity_key 2 (INTEGRITY_ROWS ! 2) \<mapsto> True, integrity_key 3 (INTEGRITY_ROWS ! 3) \<mapsto> True])
     = [''Error Detection & Alerts'', ''Patient Identity Management (MPI)'']
   \<and> fst (enforce_single_select (plan_keys @ integrity_keys)
        [integrity_key 2 (INTEGRITY_ROWS ! 2), integrity_key 3 (INTEGRITY_ROWS ! 3)]
        [integrity_key 2 (INTEGRITY_ROWS ! 2) \<mapsto> True, integrity_key 3 (INTEGRITY_ROWS ! 3) \<mapsto> True])
     = (True, Some StreamlitAPIException)
   \<and> script No_Button
        [integrity_key 2 (INTEGRITY_ROWS ! 2) \<mapsto> True, integrity_key 3 (INTEGRITY_ROWS ! 3) \<mapsto> True]
     = Inl (Stop_2_3 StreamlitAPIException None (Some ''Patient Identity Management (MPI)'')
        [integrity_key 2 (INTEGRITY_ROWS ! 2) \<mapsto> True, integrity_key 3 (INTEGRITY_ROWS ! 3) \<mapsto> True])
   \<and> map Area (integrity_rows_set (final_state (script No_Button
        [integrity_key 2 (INTEGRITY_ROWS ! 2) \<mapsto> True, integrity_key 3 (INTEGRITY_ROWS ! 3) \<mapsto> True])))
     = [''Error Detection & Alerts'', ''Patient Identity Management (MPI)'']
   \<and> map Gap (plan_rows_set
        [plan_key 2 (PLAN_ROWS ! 2) \<mapsto> True, plan_key 3 (PLAN_ROWS ! 3) \<mapsto> True])
     = [''Missing Clinical Context'', ''No FHIR Connection'']
   \<and> script No_Button [plan_key 2 (PLAN_ROWS ! 2) \<mapsto> True, plan_key 3 (PLAN_ROWS ! 3) \<mapsto> True]
     = Inl (Stop_1_7 StreamlitAPIException
        [plan_key 2 (PLAN_ROWS ! 2) \<mapsto> True, plan_key 3 (PLAN_ROWS ! 3) \<mapsto> True])
   \<and> map Gap (plan_rows_set (final_state (script No_Button
        [plan_key 2 (PLAN_ROWS ! 2) \<mapsto> True, plan_key 3 (PLAN_ROWS ! 3) \<mapsto> True])))
     = [''Missing Clinical Context'', ''No FHIR Connection'']"
proof -
  let ?si = "[integrity_key 2 (INTEGRITY_ROWS ! 2) \<mapsto> True, integrity_key 3 (INTEGRITY_ROWS ! 3) \<mapsto> True]"
  let ?sp = "[plan_key 2 (PLAN_ROWS ! 2) \<mapsto> True, plan_key 3 (PLAN_ROWS ! 3) \<mapsto> True]"
  have a: "map Area (integrity_rows_set ?si)
            = [''Error Detection & Alerts'', ''Patient Identity Management (MPI)'']"
    by code_simp
  have b: "fst (enforce_single_select (plan_keys @ integrity_keys)
        [integrity_key 2 (INTEGRITY_ROWS ! 2), integrity_key 3 (INTEGRITY_ROWS ! 3)] ?si)
     = (True, Some StreamlitAPIException)"
    by code_simp
  have "length (plan_rows_set ?si) \<le> 1" "length (integrity_rows_set ?si) > 1"
    "first_plan_row_set ?si = None"
    "last_area_set ?si = Some ''Patient Identity Management (MPI)''"
    by code_simp+
  then have c: "script No_Button ?si
     = Inl (Stop_2_3 StreamlitAPIException None (Some ''Patient Identity Management (MPI)'') ?si)"
    using integrity_conflict_stops_run[of ?si] by simp
  have d: "map Area (integrity_rows_set (final_state (script No_Button ?si)))
            = [''Error Detection & Alerts'', ''Patient Identity Management (MPI)'']"
    using a by (simp add: c final_state_def)
  have e: "map Gap (plan_rows_set ?sp) = [''Missing Clinical Context'', ''No FHIR Connection'']"
    by code_simp
  have "length (plan_rows_set ?sp) > 1" by code_simp
  then have f: "script No_Button ?sp = Inl (Stop_1_7 StreamlitAPIException ?sp)"
    by (rule plan_conflict_stops_run)
  have g: "map Gap (plan_rows_set (final_state (script No_Button ?sp)))
            = [''Missing Clinical Context'', ''No FHIR Connection'']"
    using e by (simp add: f final_state_def)
  show ?thesis using a b c d e f g by (intro conjI)
qed

text \<open>
  C2. Single selection. In a fresh session a click on the plan row 2 selects it. A click
  on the plan row 4 then leaves both checkboxes set: the run stops in the reset, which
  raises and writes nothing, so the session state holds two set rows of one table, and
  the next run stops in the same way.
\<close>

theorem plan_conflict_persists:
  "map Gap (plan_rows_set (interactions [Toggle (plan_key 2 (PLAN_ROWS ! 2))] Map.empty))
     = [''Missing Clinical Context'']
   \<and> isl (interact (Toggle (plan_key 4 (PLAN_ROWS ! 4)))
        (interactions [Toggle (plan_key 2 (PLAN_ROWS ! 2))] Map.empty))
   \<and> map Gap (plan_rows_set (interactions
        [Toggle (plan_key 2 (PLAN_ROWS ! 2)), Toggle (plan_key 4 (PLAN_ROWS ! 4))] Map.empty))
     = [''Missing Clinical Context'', ''Data Integrity & Security'']
   \<and> isl (interact (Press No_Button) (interactions
        [Toggle (plan_key 2 (PLAN_ROWS ! 2)), Toggle (plan_key 4 (PLAN_ROWS ! 4))] Map.empty))"
  by code_simp

end
